theory Spec2Isabelle
  imports Complex_Main "HOL-Library.Monad_Syntax"
begin

section \<open>Tensor shapes of the CVAE (plot.py, lines 36-168)\<close>

text \<open>
  The shape of a tensor is the list of its sizes, Python integers. A layer is modelled by
  what it does to the shape of its input: \<open>None\<close> stands for the RuntimeError that
  PyTorch raises on a shape the layer does not accept. The length formulas are the ones
  the PyTorch documentation gives for each layer, with the defaults the script leaves in
  place (stride 1 and dilation 1 for the convolutions, no padding for the pooling, no
  output padding for the transposed convolutions, nearest-neighbour upsampling).
  Activations (relu, sigmoid) and dropout keep the shape and do not appear.

  A module is in training mode from its construction until \<^verbatim>\<open>eval()\<close> is called; the
  script calls \<^verbatim>\<open>model.eval()\<close> (line 462) before it runs the model. The flag
  \<open>training\<close> of the forward functions is that mode. On shapes only batch normalization
  depends on it.
\<close>

type_synonym shape = "int list"

definition Conv1d :: "int \<Rightarrow> int \<Rightarrow> int \<Rightarrow> int \<Rightarrow> shape \<Rightarrow> shape option" where
  "Conv1d in_channels out_channels kernel_size padding s =
     (case s of
        [n, c, l] \<Rightarrow>
          (let l_out = (l + 2 * padding - 1 * (kernel_size - 1) - 1) div 1 + 1
           in if c = in_channels \<and> 0 < l_out then Some [n, out_channels, l_out] else None)
      | [c, l] \<Rightarrow>
          (let l_out = (l + 2 * padding - 1 * (kernel_size - 1) - 1) div 1 + 1
           in if c = in_channels \<and> 0 < l_out then Some [out_channels, l_out] else None)
      | _ \<Rightarrow> None)"

definition MaxPool1d :: "int \<Rightarrow> int \<Rightarrow> shape \<Rightarrow> shape option" where
  "MaxPool1d kernel_size stride s =
     (case s of
        [n, c, l] \<Rightarrow>
          (let l_out = (l + 2 * 0 - 1 * (kernel_size - 1) - 1) div stride + 1
           in if 0 < l_out then Some [n, c, l_out] else None)
      | [c, l] \<Rightarrow>
          (let l_out = (l + 2 * 0 - 1 * (kernel_size - 1) - 1) div stride + 1
           in if 0 < l_out then Some [c, l_out] else None)
      | _ \<Rightarrow> None)"

text \<open>
  \<^verbatim>\<open>nn.BatchNorm1d(num_features)\<close> takes an input of shape (N, C) or (N, C, L) with
  \<open>C = num_features\<close>. In training mode it computes the statistics of the batch, and
  raises ValueError ("Expected more than 1 value per channel when training") when the
  batch gives it one value per channel, that is when \<open>N = 1\<close>, or \<open>N * L = 1\<close> for an
  input with a length.
\<close>

definition BatchNorm1d :: "bool \<Rightarrow> int \<Rightarrow> shape \<Rightarrow> shape option" where
  "BatchNorm1d training num_features s =
     (case s of
        [n, c, l] \<Rightarrow>
          if c = num_features \<and> \<not> (training \<and> n * l = 1) then Some s else None
      | [n, c] \<Rightarrow>
          if c = num_features \<and> \<not> (training \<and> n = 1) then Some s else None
      | _ \<Rightarrow> None)"

definition Linear :: "int \<Rightarrow> int \<Rightarrow> shape \<Rightarrow> shape option" where
  "Linear in_features out_features s =
     (if s \<noteq> [] \<and> last s = in_features then Some (butlast s @ [out_features]) else None)"

definition Upsample_scale :: "int \<Rightarrow> shape \<Rightarrow> shape option" where
  "Upsample_scale scale_factor s =
     (case s of
        [n, c, l] \<Rightarrow> if 0 < l * scale_factor then Some [n, c, l * scale_factor] else None
      | _ \<Rightarrow> None)"

definition Upsample_size :: "int \<Rightarrow> shape \<Rightarrow> shape option" where
  "Upsample_size out_size s =
     (case s of
        [n, c, l] \<Rightarrow> if 0 < l \<and> 0 < out_size then Some [n, c, out_size] else None
      | _ \<Rightarrow> None)"

definition ConvTranspose1d :: "int \<Rightarrow> int \<Rightarrow> int \<Rightarrow> int \<Rightarrow> shape \<Rightarrow> shape option" where
  "ConvTranspose1d in_channels out_channels kernel_size padding s =
     (case s of
        [n, c, l] \<Rightarrow>
          (let l_out = (l - 1) * 1 - 2 * padding + 1 * (kernel_size - 1) + 0 + 1
           in if c = in_channels \<and> 0 < l_out then Some [n, out_channels, l_out] else None)
      | [c, l] \<Rightarrow>
          (let l_out = (l - 1) * 1 - 2 * padding + 1 * (kernel_size - 1) + 0 + 1
           in if c = in_channels \<and> 0 < l_out then Some [out_channels, l_out] else None)
      | _ \<Rightarrow> None)"

text \<open>
  \<^verbatim>\<open>x.view(x.size(0), -1)\<close> keeps the first size and folds the others into one;
  \<^verbatim>\<open>h.view(h.size(0), 128, -1)\<close> needs the number of elements to be a multiple of
  \<open>128 * h.size(0)\<close>. With a first size of 0 the size written \<open>-1\<close> cannot be
  inferred, and the call raises.
\<close>

definition view_flat :: "shape \<Rightarrow> shape option" where
  "view_flat s =
     (case s of
        [] \<Rightarrow> None
      | n # rest \<Rightarrow> if n = 0 then None else Some [n, prod_list rest])"

definition view_channels :: "int \<Rightarrow> shape \<Rightarrow> shape option" where
  "view_channels channels s =
     (case s of
        [] \<Rightarrow> None
      | n # rest \<Rightarrow>
          if n * channels = 0 \<or> prod_list s mod (n * channels) \<noteq> 0 then None
          else Some [n, channels, prod_list s div (n * channels)])"

text \<open>
  \<^verbatim>\<open>torch.cat([x, c], dim=-1)\<close>: both tensors have the same number of dimensions and
  agree on every size but the last.
\<close>

definition cat_last :: "shape \<Rightarrow> shape \<Rightarrow> shape option" where
  "cat_last s t =
     (if s \<noteq> [] \<and> length s = length t \<and> butlast s = butlast t
      then Some (butlast s @ [last s + last t]) else None)"

text \<open>Broadcasting of two shapes, read from the last size backwards.\<close>

fun broadcast_rev :: "shape \<Rightarrow> shape \<Rightarrow> shape option" where
  "broadcast_rev [] t = Some t"
| "broadcast_rev s [] = Some s"
| "broadcast_rev (a # s) (b # t) =
     (if a = b \<or> b = 1 then map_option ((#) a) (broadcast_rev s t)
      else if a = 1 then map_option ((#) b) (broadcast_rev s t)
      else None)"

definition broadcast :: "shape \<Rightarrow> shape \<Rightarrow> shape option" where
  "broadcast s t = map_option rev (broadcast_rev (rev s) (rev t))"

subsection \<open>Encoder\<close>

definition calc_seq_len :: "int \<Rightarrow> int" where
  "calc_seq_len seq_len =
     (let seq_len = (seq_len + 2 * 6 - 12) div 1 + 1;
          seq_len = (seq_len - 2) div 2 + 1;
          seq_len = (seq_len + 2 * 6 - 12) div 1 + 1;
          seq_len = (seq_len - 2) div 2 + 1;
          seq_len = (seq_len + 2 * 6 - 12) div 1 + 1;
          seq_len = (seq_len - 2) div 2 + 1
      in seq_len)"

text \<open>
  An encoder, as \<^verbatim>\<open>Encoder.__init__\<close> leaves it: the constructor's arguments that its
  layers are built from, and \<^verbatim>\<open>self.seq_len\<close>, the reduced length that
  \<open>calc_seq_len\<close> computes from the argument \<open>seq_len\<close>.
\<close>

record Encoder =
  enc_input_dim :: int
  enc_seq_len :: int
  enc_latent_dim :: int
  enc_condition_dim :: int

definition Encoder_init :: "int \<Rightarrow> int \<Rightarrow> int \<Rightarrow> int \<Rightarrow> Encoder" where
  "Encoder_init input_dim seq_len latent_dim condition_dim =
     \<lparr>enc_input_dim = input_dim, enc_seq_len = calc_seq_len seq_len,
      enc_latent_dim = latent_dim, enc_condition_dim = condition_dim\<rparr>"

text \<open>
  The three convolution blocks of \<^verbatim>\<open>Encoder.forward\<close> (lines 73-77, 80-84, 87-91) are
  built alike: a convolution with kernel 12 and padding 6 to 128 channels, batch
  normalization, max pooling with kernel 2 and stride 2. They differ in the number of
  channels of their input.
\<close>

definition Encoder_block :: "bool \<Rightarrow> int \<Rightarrow> shape \<Rightarrow> shape option" where
  "Encoder_block training in_channels x =
     do {
       x \<leftarrow> Conv1d in_channels 128 12 6 x;
       x \<leftarrow> BatchNorm1d training 128 x;
       MaxPool1d 2 2 x
     }"

definition Encoder_features :: "bool \<Rightarrow> Encoder \<Rightarrow> shape \<Rightarrow> shape option" where
  "Encoder_features training self x =
     do {
       x \<leftarrow> Encoder_block training (enc_input_dim self) x;
       x \<leftarrow> Encoder_block training 128 x;
       Encoder_block training 128 x
     }"

definition Encoder_forward ::
  "bool \<Rightarrow> Encoder \<Rightarrow> shape \<Rightarrow> shape \<Rightarrow> (shape \<times> shape) option" where
  "Encoder_forward training self x c =
     do {
       x \<leftarrow> Encoder_features training self x;
       x \<leftarrow> view_flat x;
       x \<leftarrow> Linear (128 * enc_seq_len self) 512 x;
       x \<leftarrow> cat_last x c;
       x \<leftarrow> BatchNorm1d training (512 + enc_condition_dim self) x;
       mu \<leftarrow> Linear (512 + enc_condition_dim self) (enc_latent_dim self) x;
       logvar \<leftarrow> Linear (512 + enc_condition_dim self) (enc_latent_dim self) x;
       Some (mu, logvar)
     }"

subsection \<open>Decoder\<close>

record Decoder =
  dec_latent_dim :: int
  dec_seq_len :: int
  dec_output_dim :: int
  dec_condition_dim :: int

definition Decoder_init :: "int \<Rightarrow> int \<Rightarrow> int \<Rightarrow> int \<Rightarrow> Decoder" where
  "Decoder_init latent_dim seq_len output_dim condition_dim =
     \<lparr>dec_latent_dim = latent_dim, dec_seq_len = seq_len,
      dec_output_dim = output_dim, dec_condition_dim = condition_dim\<rparr>"

text \<open>
  \<^verbatim>\<open>Decoder.forward\<close> in its four groups of lines: the projection of the latent draw and
  the condition to 128 channels of the reduced length (lines 131-137), the two blocks that
  double the length and apply a transposed convolution with kernel 12 and padding 6 (lines
  139-141 and 143-145), and the block that resizes to the fixed length 4501 before the last
  transposed convolution (lines 147-149).
\<close>

definition Decoder_project :: "bool \<Rightarrow> Decoder \<Rightarrow> shape \<Rightarrow> shape \<Rightarrow> shape option" where
  "Decoder_project training self z c =
     do {
       z \<leftarrow> cat_last z c;
       h \<leftarrow> Linear (dec_latent_dim self + dec_condition_dim self) 512 z;
       h \<leftarrow> Linear 512 (128 * dec_seq_len self) h;
       h \<leftarrow> view_channels 128 h;
       BatchNorm1d training 128 h
     }"

definition Decoder_block :: "bool \<Rightarrow> shape \<Rightarrow> shape option" where
  "Decoder_block training h =
     do {
       h \<leftarrow> Upsample_scale 2 h;
       h \<leftarrow> BatchNorm1d training 128 h;
       ConvTranspose1d 128 128 12 6 h
     }"

definition Decoder_block3 :: "bool \<Rightarrow> Decoder \<Rightarrow> shape \<Rightarrow> shape option" where
  "Decoder_block3 training self h =
     do {
       h \<leftarrow> Upsample_size 4501 h;
       h \<leftarrow> BatchNorm1d training 128 h;
       ConvTranspose1d 128 (dec_output_dim self) 12 6 h
     }"

definition Decoder_forward :: "bool \<Rightarrow> Decoder \<Rightarrow> shape \<Rightarrow> shape \<Rightarrow> shape option" where
  "Decoder_forward training self z c =
     do {
       h \<leftarrow> Decoder_project training self z c;
       h \<leftarrow> Decoder_block training h;
       h \<leftarrow> Decoder_block training h;
       Decoder_block3 training self h
     }"

subsection \<open>CVAE\<close>

record CVAE =
  encoder :: Encoder
  decoder :: Decoder

definition CVAE_init :: "int \<Rightarrow> int \<Rightarrow> int \<Rightarrow> int \<Rightarrow> CVAE" where
  "CVAE_init input_dim seq_len latent_dim condition_dim =
     (let encoder = Encoder_init input_dim seq_len latent_dim condition_dim;
          decoder = Decoder_init latent_dim (enc_seq_len encoder) input_dim condition_dim
      in \<lparr>encoder = encoder, decoder = decoder\<rparr>)"

text \<open>
  \<^verbatim>\<open>reparameterize\<close> on shapes: \<open>std\<close> and \<open>eps\<close> have the shape of \<open>logvar\<close>, and
  \<open>mu + eps * std\<close> broadcasts the two shapes.
\<close>

definition reparameterize_shape :: "shape \<Rightarrow> shape \<Rightarrow> shape option" where
  "reparameterize_shape mu logvar =
     (let std = logvar; eps = std
      in do { noise \<leftarrow> broadcast eps std; broadcast mu noise })"

definition CVAE_forward ::
  "bool \<Rightarrow> CVAE \<Rightarrow> shape \<Rightarrow> shape \<Rightarrow> (shape \<times> shape \<times> shape) option" where
  "CVAE_forward training self x c =
     do {
       (mu, logvar) \<leftarrow> Encoder_forward training (encoder self) x c;
       z \<leftarrow> reparameterize_shape mu logvar;
       x_recon \<leftarrow> Decoder_forward training (decoder self) z c;
       Some (x_recon, mu, logvar)
     }"

text \<open>The model of the script (lines 449-454).\<close>

definition model :: CVAE where
  "model = CVAE_init 14 4500 512 4"

section \<open>Tensor values: reparameterization, loss and the decoder's output\<close>

text \<open>
  Where a claim is about the numbers in a tensor, the tensor is the list of its elements in
  row-major order and the numbers are real: the rounding of floating-point arithmetic is not
  modelled. What is proved of the values is therefore an equation between formulas, which
  the computed value matches up to rounding, or an inequality that rounding to the nearest
  number cannot reverse (a sum of squares is not negative, a sum does not get smaller when
  a number that is not negative is added, a sigmoid lies between 0 and 1). The element-wise
  operations on two tensors are modelled for operands of the same shape, that is of the same
  number of elements, which is how the script calls them; the theorems state it as a
  hypothesis.
\<close>

type_synonym tensor = "real list"

definition t_exp :: "tensor \<Rightarrow> tensor" where
  "t_exp t = map exp t"

definition t_pow :: "tensor \<Rightarrow> nat \<Rightarrow> tensor" where
  "t_pow t k = map (\<lambda>v. v ^ k) t"

definition t_scale :: "real \<Rightarrow> tensor \<Rightarrow> tensor" where
  "t_scale a t = map ((*) a) t"

definition t_shift :: "real \<Rightarrow> tensor \<Rightarrow> tensor" where
  "t_shift a t = map ((+) a) t"

definition t_add :: "tensor \<Rightarrow> tensor \<Rightarrow> tensor" where
  "t_add s t = map2 (+) s t"

definition t_sub :: "tensor \<Rightarrow> tensor \<Rightarrow> tensor" where
  "t_sub s t = map2 (-) s t"

definition t_mul :: "tensor \<Rightarrow> tensor \<Rightarrow> tensor" where
  "t_mul s t = map2 (*) s t"

text \<open>
  \<^verbatim>\<open>torch.randn_like(std)\<close> returns a tensor of the shape of \<open>std\<close> filled by the random
  generator. The generator's draws are a parameter of the model, \<open>draw i\<close> being the
  number it puts at position \<open>i\<close>; that each is a standard normal draw, independent of the
  others, is PyTorch's contract for \<^verbatim>\<open>randn_like\<close>.
\<close>

definition randn_like :: "(nat \<Rightarrow> real) \<Rightarrow> tensor \<Rightarrow> tensor" where
  "randn_like draw t = map draw [0..<length t]"

definition reparameterize :: "(nat \<Rightarrow> real) \<Rightarrow> tensor \<Rightarrow> tensor \<Rightarrow> tensor" where
  "reparameterize draw mu logvar =
     (let std = t_exp (t_scale 0.5 logvar);
          eps = randn_like draw std
      in t_add mu (t_mul eps std))"

subsection \<open>Loss (lines 171-174)\<close>

text \<open>\<^verbatim>\<open>nn.functional.mse_loss(input, target, reduction='sum')\<close>.\<close>

definition mse_loss_sum :: "tensor \<Rightarrow> tensor \<Rightarrow> real" where
  "mse_loss_sum input target = sum_list (t_pow (t_sub input target) 2)"

text \<open>
  The two local variables of \<^verbatim>\<open>loss_function\<close>. The constant \<^verbatim>\<open>1e-8\<close> is added to
  every element before \<^verbatim>\<open>torch.sum\<close> adds them up.
\<close>

definition BCE :: "tensor \<Rightarrow> tensor \<Rightarrow> real" where
  "BCE x_recon x = mse_loss_sum x_recon x"

definition KLD :: "tensor \<Rightarrow> tensor \<Rightarrow> real" where
  "KLD mu logvar =
     - 0.5 * sum_list (t_shift (1 / 10 ^ 8)
               (t_sub (t_sub (t_shift 1 logvar) (t_pow mu 2)) (t_exp logvar)))"

definition loss_function :: "tensor \<Rightarrow> tensor \<Rightarrow> tensor \<Rightarrow> tensor \<Rightarrow> real" where
  "loss_function x_recon x mu logvar = BCE x_recon x + 1 * KLD mu logvar"

subsection \<open>The last line of the decoder's forward method (line 149)\<close>

definition sigmoid :: "real \<Rightarrow> real" where
  "sigmoid v = 1 / (1 + exp (- v))"

definition t_sigmoid :: "tensor \<Rightarrow> tensor" where
  "t_sigmoid t = map sigmoid t"

text \<open>
  \<^verbatim>\<open>nn.Dropout(p)\<close>: in evaluation mode the identity; in training mode every element is
  either set to 0 or kept and multiplied by \<open>1 / (1 - p)\<close>. Which elements are kept is
  drawn at random: \<open>keep i\<close> says whether the element at position \<open>i\<close> is.
\<close>

definition Dropout :: "real \<Rightarrow> bool \<Rightarrow> (nat \<Rightarrow> bool) \<Rightarrow> tensor \<Rightarrow> tensor" where
  "Dropout p training keep t =
     (if training then map (\<lambda>i. if keep i then t ! i * (1 / (1 - p)) else 0) [0..<length t]
      else t)"

text \<open>
  \<^verbatim>\<open>x_recon = self.conv3_dropout(torch.sigmoid(self.trans_conv3(h)))\<close>, as a function of
  the tensor \<open>a\<close> that \<^verbatim>\<open>self.trans_conv3(h)\<close> returns. The dropout layer is built with
  \<open>dropout_prob = 0.2\<close>, the default that the script's \<^verbatim>\<open>CVAE(...)\<close> call leaves in
  place.
\<close>

definition dropout_prob :: real where
  "dropout_prob = 0.2"

definition Decoder_x_recon :: "bool \<Rightarrow> (nat \<Rightarrow> bool) \<Rightarrow> tensor \<Rightarrow> tensor" where
  "Decoder_x_recon training keep a = Dropout dropout_prob training keep (t_sigmoid a)"

text \<open>The draw in which dropout keeps every element.\<close>

definition keep_all :: "nat \<Rightarrow> bool" where
  "keep_all i = True"

section \<open>Data preparation: channel groups and scalers (lines 177-179, 248-251, 307-327, 412-438)\<close>

definition features :: "string list" where
  "features = [''A+IGBT-I'', ''A+*IGBT-I'', ''B+IGBT-I'', ''B+*IGBT-I'', ''C+IGBT-I'',
               ''C+*IGBT-I'', ''A-FLUX'', ''B-FLUX'', ''C-FLUX'', ''CB-I'', ''CB-V'',
               ''MOD-V'', ''MOD-I'', ''DV/DT'']"

text \<open>\<^verbatim>\<open>range(len(xs))\<close>, as the list of the indices that a \<^verbatim>\<open>for\<close> loop goes through.\<close>

definition range_len :: "'a list \<Rightarrow> int list" where
  "range_len xs = [0..int (length xs) - 1]"

text \<open>
  The guards of the four \<^verbatim>\<open>if\<close> statements in the body of every scaling loop. They are
  four separate \<^verbatim>\<open>if\<close>s, not an \<^verbatim>\<open>elif\<close> chain: each is tested for every index.
\<close>

definition in_IGBT :: "int \<Rightarrow> bool" where
  "in_IGBT i = (i \<ge> 0 \<and> i \<le> 5)"

definition in_FLUX :: "int \<Rightarrow> bool" where
  "in_FLUX i = (i \<ge> 6 \<and> i \<le> 8)"

definition in_CAP :: "int \<Rightarrow> bool" where
  "in_CAP i = (i \<ge> 9 \<and> i \<le> 10)"

definition in_MOD :: "int \<Rightarrow> bool" where
  "in_MOD i = (i \<ge> 11)"

datatype channel_group = IGBT | FLUX | CAP | MOD

text \<open>The groups whose branch the loop body takes at index \<open>i\<close>, in the order of the branches.\<close>

definition groups_of :: "int \<Rightarrow> channel_group list" where
  "groups_of i =
     (if in_IGBT i then [IGBT] else []) @ (if in_FLUX i then [FLUX] else [])
     @ (if in_CAP i then [CAP] else []) @ (if in_MOD i then [MOD] else [])"

text \<open>A \<^verbatim>\<open>for\<close> loop over a list of indices whose body may raise: the first error ends it.\<close>

fun for_each :: "('i \<Rightarrow> 's \<Rightarrow> 's option) \<Rightarrow> 'i list \<Rightarrow> 's \<Rightarrow> 's option" where
  "for_each body [] s = Some s"
| "for_each body (i # is) s =
     (case body i s of None \<Rightarrow> None | Some s' \<Rightarrow> for_each body is s')"

text \<open>
  The scaling loops only ever read and write whole channels, \<^verbatim>\<open>X[:,:,i]\<close>, reshaped to one
  column. An array of shape (samples, time steps, channels) is held here by channel: the
  list of its channels, each the column of that channel's values. Indexing the last axis
  with \<open>i\<close> raises IndexError out of range; a negative index counts from the end.
\<close>

type_synonym column = "real list"
type_synonym array = "column list"

definition get_channel :: "array \<Rightarrow> int \<Rightarrow> column option" where
  "get_channel X i =
     (let n = int (length X); j = (if i < 0 then n + i else i)
      in if 0 \<le> j \<and> j < n then Some (X ! nat j) else None)"

definition set_channel :: "array \<Rightarrow> int \<Rightarrow> column \<Rightarrow> array option" where
  "set_channel X i v =
     (let n = int (length X); j = (if i < 0 then n + i else i)
      in if 0 \<le> j \<and> j < n then Some (X[nat j := v]) else None)"

text \<open>
  scikit-learn's \<^verbatim>\<open>MinMaxScaler\<close> with its default feature range (0, 1), on one column.
  \<^verbatim>\<open>fit\<close> forgets what was fitted before and computes \<^verbatim>\<open>scale_\<close> and \<^verbatim>\<open>min_\<close> from the
  minimum and the maximum of the data it is given; a range below 10 times the machine
  epsilon counts as 1 (the epsilon of float64, NumPy's default type, is 1 / 2^52); it
  raises on no data. \<^verbatim>\<open>transform\<close> computes \<open>x * scale_ + min_\<close> and changes nothing
  in the scaler; it raises on a scaler that was never fitted, and on no data.
  \<^verbatim>\<open>fit_transform\<close> is \<^verbatim>\<open>fit\<close> followed by
  \<^verbatim>\<open>transform\<close> on the same data. The field \<open>fitted\<close> holds \<open>(scale_, min_)\<close>; the field
  \<open>n_fits\<close> is not an attribute of the scaler: it counts the calls of \<^verbatim>\<open>fit\<close>, so that
  theorems can speak of them.
\<close>

record MinMaxScaler =
  fitted :: "(real \<times> real) option"
  n_fits :: nat

definition MinMaxScaler_init :: MinMaxScaler where
  "MinMaxScaler_init = \<lparr>fitted = None, n_fits = 0\<rparr>"

definition machine_eps :: real where
  "machine_eps = 1 / 2 ^ 52"

definition minmax_params :: "column \<Rightarrow> real \<times> real" where
  "minmax_params X =
     (let data_min = Min (set X);
          data_max = Max (set X);
          data_range = data_max - data_min;
          scale = (1 - 0) / (if data_range < 10 * machine_eps then 1 else data_range);
          min = 0 - data_min * scale
      in (scale, min))"

definition fit :: "MinMaxScaler \<Rightarrow> column \<Rightarrow> MinMaxScaler option" where
  "fit self X =
     (if X = [] then None
      else Some \<lparr>fitted = Some (minmax_params X), n_fits = n_fits self + 1\<rparr>)"

definition apply_params :: "real \<times> real \<Rightarrow> column \<Rightarrow> column" where
  "apply_params p X = map (\<lambda>x. x * fst p + snd p) X"

definition transform :: "MinMaxScaler \<Rightarrow> column \<Rightarrow> column option" where
  "transform self X =
     (case fitted self of
        None \<Rightarrow> None
      | Some p \<Rightarrow> if X = [] then None else Some (apply_params p X))"

definition fit_transform :: "MinMaxScaler \<Rightarrow> column \<Rightarrow> (MinMaxScaler \<times> column) option" where
  "fit_transform self X = do { self \<leftarrow> fit self X; Y \<leftarrow> transform self X; Some (self, Y) }"

text \<open>What \<^verbatim>\<open>fit_transform\<close> returns for a column: the column scaled by its own parameters.\<close>

definition minmax_col :: "column \<Rightarrow> column" where
  "minmax_col X = apply_params (minmax_params X) X"

text \<open>A scaler after \<open>k\<close> more calls of \<^verbatim>\<open>fit\<close>, the last of them on the column \<open>X\<close>.\<close>

definition refit :: "MinMaxScaler \<Rightarrow> nat \<Rightarrow> column \<Rightarrow> MinMaxScaler" where
  "refit sc k X = \<lparr>fitted = Some (minmax_params X), n_fits = n_fits sc + k\<rparr>"

text \<open>The four module-level scaler objects (lines 248-251).\<close>

record scalers =
  scaler_IGBT :: MinMaxScaler
  scaler_FLUX :: MinMaxScaler
  scaler_CAP :: MinMaxScaler
  scaler_MOD :: MinMaxScaler

text \<open>
  \<^verbatim>\<open>X[:,:,i] = scaler.fit_transform(X[:,:,i].reshape(-1, 1)).reshape(X[:,:,i].shape)\<close> and
  \<^verbatim>\<open>X[:,:,i] = scaler.transform(X[:,:,i].reshape(-1, 1)).reshape(X[:,:,i].shape)\<close>.
\<close>

definition fit_transform_channel ::
  "MinMaxScaler \<Rightarrow> array \<Rightarrow> int \<Rightarrow> (MinMaxScaler \<times> array) option" where
  "fit_transform_channel scaler X i =
     do {
       col \<leftarrow> get_channel X i;
       (scaler, Y) \<leftarrow> fit_transform scaler col;
       X \<leftarrow> set_channel X i Y;
       Some (scaler, X)
     }"

definition transform_channel :: "MinMaxScaler \<Rightarrow> array \<Rightarrow> int \<Rightarrow> array option" where
  "transform_channel scaler X i =
     do {
       col \<leftarrow> get_channel X i;
       Y \<leftarrow> transform scaler col;
       set_channel X i Y
     }"

text \<open>
  The body of the min-max loops at lines 307-315, 319-327 and 412-420, which differ only in
  the array they work on, and the body of the loop over \<^verbatim>\<open>data_test\<close> at lines 430-438.
\<close>

definition minmax_step :: "int \<Rightarrow> scalers \<times> array \<Rightarrow> (scalers \<times> array) option" where
  "minmax_step i st =
     do {
       st \<leftarrow> (if in_IGBT i
              then do { (sc, X) \<leftarrow> fit_transform_channel (scaler_IGBT (fst st)) (snd st) i;
                        Some ((fst st)\<lparr>scaler_IGBT := sc\<rparr>, X) }
              else Some st);
       st \<leftarrow> (if in_FLUX i
              then do { (sc, X) \<leftarrow> fit_transform_channel (scaler_FLUX (fst st)) (snd st) i;
                        Some ((fst st)\<lparr>scaler_FLUX := sc\<rparr>, X) }
              else Some st);
       st \<leftarrow> (if in_CAP i
              then do { (sc, X) \<leftarrow> fit_transform_channel (scaler_CAP (fst st)) (snd st) i;
                        Some ((fst st)\<lparr>scaler_CAP := sc\<rparr>, X) }
              else Some st);
       (if in_MOD i
        then do { (sc, X) \<leftarrow> fit_transform_channel (scaler_MOD (fst st)) (snd st) i;
                  Some ((fst st)\<lparr>scaler_MOD := sc\<rparr>, X) }
        else Some st)
     }"

definition transform_step :: "scalers \<Rightarrow> int \<Rightarrow> array \<Rightarrow> array option" where
  "transform_step S i D =
     do {
       D \<leftarrow> (if in_IGBT i then transform_channel (scaler_IGBT S) D i else Some D);
       D \<leftarrow> (if in_FLUX i then transform_channel (scaler_FLUX S) D i else Some D);
       D \<leftarrow> (if in_CAP i then transform_channel (scaler_CAP S) D i else Some D);
       (if in_MOD i then transform_channel (scaler_MOD S) D i else Some D)
     }"

definition minmax_loop :: "scalers \<times> array \<Rightarrow> (scalers \<times> array) option" where
  "minmax_loop st = for_each minmax_step (range_len features) st"

text \<open>
  Lines 412 to 438: the min-max loop over \<^verbatim>\<open>Xnormal_concat\<close> (412-420), then the loop
  over \<^verbatim>\<open>data_test\<close> (430-438), with no \<^verbatim>\<open>exit()\<close> between the two. The state is
  the module-level variables that the two loops read and write; \<^verbatim>\<open>data_test\<close> is a copy
  of one normal RFQ sample (lines 427-429). These lines stand after the \<^verbatim>\<open>exit()\<close>
  calls of lines 293 and 411: the model of the whole script, further down, says which
  statements a run reaches.
\<close>

record prep =
  scalers :: scalers
  Xnormal_concat :: array
  data_test :: array

definition refit_and_transform :: "prep \<Rightarrow> prep option" where
  "refit_and_transform s =
     do {
       (S, X) \<leftarrow> minmax_loop (scalers s, Xnormal_concat s);
       s \<leftarrow> Some (s\<lparr>scalers := S, Xnormal_concat := X\<rparr>);
       D \<leftarrow> for_each (transform_step (scalers s)) (range_len features) (data_test s);
       Some (s\<lparr>data_test := D\<rparr>)
     }"

text \<open>
  A small state to run these lines on: fresh scalers; a training array of 14 channels with
  two values in each, between 0 and 20 in every channel but channel 5, the last of the IGBT
  group, where they lie between 0 and 10; a test sample with the value 5 in every channel.
\<close>

definition prep_example :: prep where
  "prep_example =
     \<lparr>scalers = \<lparr>scaler_IGBT = MinMaxScaler_init, scaler_FLUX = MinMaxScaler_init,
                  scaler_CAP = MinMaxScaler_init, scaler_MOD = MinMaxScaler_init\<rparr>,
      Xnormal_concat =
        [[0, 20], [0, 20], [0, 20], [0, 20], [0, 20], [0, 10], [0, 20],
         [0, 20], [0, 20], [0, 20], [0, 20], [0, 20], [0, 20], [0, 20]],
      data_test = [[5], [5], [5], [5], [5], [5], [5], [5], [5], [5], [5], [5], [5], [5]]\<rparr>"

section \<open>Averaging the RFQ samples in place (lines 222, 259-270)\<close>

text \<open>
  Here the samples matter one by one, and so does which array object shares its memory with
  which. A sample is a matrix of time steps by channels; a buffer is the block of memory
  that holds the samples of one array; the memory is the list of the buffers allocated so
  far, and the address of a buffer is its position in that list. An \<^verbatim>\<open>ndarray\<close> object
  does not hold numbers: it is a window on a buffer, \<open>nd_len\<close> samples from sample
  \<open>nd_start\<close> on. Two objects with the same \<open>nd_base\<close> see each other's writes.
\<close>

type_synonym matrix = "real list list"
type_synonym buffer = "matrix list"
type_synonym memory = "buffer list"

record ndarray =
  nd_base :: nat
  nd_start :: nat
  nd_len :: nat

definition rows_of :: "memory \<Rightarrow> ndarray \<Rightarrow> buffer option" where
  "rows_of mem a =
     (if nd_base a < length mem
      then Some (take (nd_len a) (drop (nd_start a) (mem ! nd_base a))) else None)"

definition store_rows :: "memory \<Rightarrow> ndarray \<Rightarrow> buffer \<Rightarrow> memory option" where
  "store_rows mem a rows =
     (if nd_base a < length mem
      then let buf = mem ! nd_base a
           in Some (mem[nd_base a :=
                      take (nd_start a) buf @ rows @ drop (nd_start a + nd_len a) buf])
      else None)"

text \<open>\<^verbatim>\<open>np.zeros(shape)\<close> allocates a buffer of its own, here of the shape of \<open>like\<close>.\<close>

definition np_zeros :: "memory \<Rightarrow> buffer \<Rightarrow> memory \<times> ndarray" where
  "np_zeros mem like =
     (mem @ [map (map (map (\<lambda>x. 0))) like],
      \<lparr>nd_base = length mem, nd_start = 0, nd_len = length like\<rparr>)"

text \<open>
  Basic slicing \<^verbatim>\<open>a[:k,:,:]\<close> allocates nothing: NumPy returns a view, an object on the
  buffer of \<open>a\<close>.
\<close>

definition slice_to :: "ndarray \<Rightarrow> nat \<Rightarrow> ndarray" where
  "slice_to a k = a\<lparr>nd_len := min k (nd_len a)\<rparr>"

text \<open>\<^verbatim>\<open>a[i,:,:]\<close>, read: sample \<open>i\<close> of \<open>a\<close>, IndexError when there is none.\<close>

definition sample_at :: "memory \<Rightarrow> ndarray \<Rightarrow> nat \<Rightarrow> matrix option" where
  "sample_at mem a i =
     do { rows \<leftarrow> rows_of mem a; if i < length rows then Some (rows ! i) else None }"

text \<open>
  \<^verbatim>\<open>a += m\<close> adds the matrix \<open>m\<close> to every sample of \<open>a\<close> and writes the sums where the
  samples were, in the buffer of \<open>a\<close>. The samples of one array have one shape, so \<open>m\<close>,
  a sample of the same array, has the shape of the samples it is added to.
\<close>

definition matrix_add :: "matrix \<Rightarrow> matrix \<Rightarrow> matrix" where
  "matrix_add a b = map2 (map2 (+)) a b"

definition iadd :: "memory \<Rightarrow> ndarray \<Rightarrow> matrix \<Rightarrow> memory option" where
  "iadd mem a m =
     do { rows \<leftarrow> rows_of mem a; store_rows mem a (map (\<lambda>r. matrix_add r m) rows) }"

text \<open>
  \<^verbatim>\<open>a[:,:,i] = a[:,:,i] / d\<close> divides channel \<open>i\<close> of every sample of \<open>a\<close>, again
  in the buffer of \<open>a\<close>; IndexError when the samples have no channel \<open>i\<close>.
\<close>

definition channel_div :: "nat \<Rightarrow> real \<Rightarrow> matrix \<Rightarrow> matrix" where
  "channel_div i d m = map (\<lambda>row. row[i := row ! i / d]) m"

definition div_channel :: "memory \<Rightarrow> ndarray \<Rightarrow> nat \<Rightarrow> real \<Rightarrow> memory option" where
  "div_channel mem a i d =
     do {
       rows \<leftarrow> rows_of mem a;
       if list_all (list_all (\<lambda>row. i < length row)) rows
       then store_rows mem a (map (channel_div i d) rows) else None
     }"

text \<open>
  The bodies of the two loops, and lines 259 to 268. \<^verbatim>\<open>Xnormal_RFQ\<close> comes from indexing
  \<^verbatim>\<open>X1\<close> with an index array (line 222), which copies: it is an object on a buffer of its
  own. Line 259 binds \<^verbatim>\<open>avg_RFQ_Xnormal\<close> to a new array of zeros; line 262 binds the
  same name to the slice \<^verbatim>\<open>Xnormal_RFQ[:1,:,:]\<close>.
\<close>

definition accumulate_step :: "ndarray \<Rightarrow> ndarray \<Rightarrow> nat \<Rightarrow> memory \<Rightarrow> memory option" where
  "accumulate_step Xnormal_RFQ avg_RFQ_Xnormal i mem =
     do { m \<leftarrow> sample_at mem Xnormal_RFQ i; iadd mem avg_RFQ_Xnormal m }"

definition divide_step :: "ndarray \<Rightarrow> nat \<Rightarrow> memory \<Rightarrow> memory option" where
  "divide_step avg_RFQ_Xnormal i mem = div_channel mem avg_RFQ_Xnormal i 524"

definition average_RFQ :: "memory \<Rightarrow> ndarray \<Rightarrow> (memory \<times> ndarray) option" where
  "average_RFQ mem Xnormal_RFQ =
     do {
       like \<leftarrow> rows_of mem (slice_to Xnormal_RFQ 1);
       (mem, avg_RFQ_Xnormal) \<leftarrow> Some (np_zeros mem like);
       avg_RFQ_Xnormal \<leftarrow> Some (slice_to Xnormal_RFQ 1);
       mem \<leftarrow> for_each (accumulate_step Xnormal_RFQ avg_RFQ_Xnormal) [1..<524] mem;
       mem \<leftarrow> for_each (divide_step avg_RFQ_Xnormal) [0..<14] mem;
       Some (mem, avg_RFQ_Xnormal)
     }"

text \<open>Sample \<open>i\<close> of \<^verbatim>\<open>Xnormal_RFQ\<close> once the averaging is done.\<close>

definition sample_after_average :: "memory \<Rightarrow> ndarray \<Rightarrow> nat \<Rightarrow> matrix option" where
  "sample_after_average mem Xnormal_RFQ i =
     do { (mem, avg_RFQ_Xnormal) \<leftarrow> average_RFQ mem Xnormal_RFQ; sample_at mem Xnormal_RFQ i }"

text \<open>
  An input of the script's shape: 524 normal RFQ samples of 4500 time steps by 14 channels,
  the first sample 0 everywhere and the others 1 everywhere.
\<close>

definition const_matrix :: "nat \<Rightarrow> nat \<Rightarrow> real \<Rightarrow> matrix" where
  "const_matrix t c v = replicate t (replicate c v)"

definition memory_example :: memory where
  "memory_example = [const_matrix 4500 14 0 # replicate 523 (const_matrix 4500 14 1)]"

definition Xnormal_RFQ_example :: ndarray where
  "Xnormal_RFQ_example = \<lparr>nd_base = 0, nd_start = 0, nd_len = 524\<rparr>"

section \<open>The top-level statements of the script\<close>

text \<open>
  The script has no \<^verbatim>\<open>main\<close> function and no \<^verbatim>\<open>try\<close>: Python runs its top-level
  statements in the order of the file. They are grouped here into blocks, each with what
  it does and its first and last line; the two calls of \<^verbatim>\<open>exit()\<close>, at lines 293 and
  411, are statements of their own.
\<close>

datatype stage =
    Imports_And_Seed
  | Model_Definitions
  | Constants
  | Data_Loading
  | Label_Construction
  | Fault_Normal_Splitting
  | One_Hot_Labels
  | Scaler_Instantiation
  | Normalization_Subset
  | RFQ_Averaging
  | Averaged_Figure_Saving
  | Scaler_Fitting
  | Signal_Plots
  | Test_Sample_Transform
  | CVAE_Construction
  | Checkpoint_Load
  | Reconstruction_Evaluation
  | Reconstruction_Plots

datatype stmt = Block stage nat nat | Exit nat

definition script_before_exit :: "stmt list" where
  "script_before_exit =
     [Block Imports_And_Seed 1 24,
      Block Model_Definitions 26 174,
      Block Constants 177 184,
      Block Data_Loading 187 197,
      Block Label_Construction 200 214,
      Block Fault_Normal_Splitting 217 234,
      Block One_Hot_Labels 237 238,
      Block Scaler_Instantiation 241 251,
      Block Normalization_Subset 253 257,
      Block RFQ_Averaging 259 270,
      Block Averaged_Figure_Saving 272 291]"

definition script_after_exit :: "stmt list" where
  "script_after_exit =
     [Block Scaler_Fitting 295 341,
      Block Signal_Plots 345 409,
      Exit 411,
      Block Scaler_Fitting 412 421,
      Block Test_Sample_Transform 424 443,
      Block CVAE_Construction 446 455,
      Block Checkpoint_Load 459 459,
      Block Reconstruction_Evaluation 462 479,
      Block Reconstruction_Plots 496 516]"

definition script :: "stmt list" where
  "script = script_before_exit @ Exit 293 # script_after_exit"

text \<open>
  A run ends at the first \<^verbatim>\<open>exit()\<close>, which raises SystemExit, at the first block that
  raises an exception (a missing data file, fewer than 524 normal samples, a missing figure
  directory), or after the last statement. Which blocks raise depends on the files around
  the script: \<open>raises\<close> says it. A run is the list of the statements that were started,
  and how it ended.
\<close>

datatype outcome = Exited nat | Raised stmt | Finished

fun run :: "(stmt \<Rightarrow> bool) \<Rightarrow> stmt list \<Rightarrow> stmt list \<times> outcome" where
  "run raises [] = ([], Finished)"
| "run raises (Exit l # rest) = ([Exit l], Exited l)"
| "run raises (Block g a b # rest) =
     (if raises (Block g a b) then ([Block g a b], Raised (Block g a b))
      else (case run raises rest of (started, out) \<Rightarrow> (Block g a b # started, out)))"

fun stages :: "stmt list \<Rightarrow> stage list" where
  "stages [] = []"
| "stages (Block g a b # rest) = g # stages rest"
| "stages (Exit l # rest) = stages rest"

fun is_block :: "stmt \<Rightarrow> bool" where
  "is_block (Block g a b) = True"
| "is_block (Exit l) = False"

text \<open>The surroundings in which no block raises.\<close>

definition never_raises :: "stmt \<Rightarrow> bool" where
  "never_raises st = False"

section \<open>The shapes round-trip through the CVAE\<close>

lemma calc_seq_len_4500: "calc_seq_len 4500 = 563"
  by (simp add: calc_seq_len_def)

lemma enc_seq_len_model: "enc_seq_len (encoder model) = 563"
  by (simp add: model_def CVAE_init_def Encoder_init_def calc_seq_len_def Let_def)

lemma dec_seq_len_model: "dec_seq_len (decoder model) = enc_seq_len (encoder model)"
  by (simp add: model_def CVAE_init_def Decoder_init_def Let_def)

text \<open>
  Batch normalization of an input with a length above 1 never sees one value per channel;
  of an input without a length it does when the batch is one sample and the mode is
  training.
\<close>

lemma BatchNorm1d_3d:
  assumes "0 < n" and "1 < l"
  shows "BatchNorm1d training c [n, c, l] = Some [n, c, l]"
proof -
  have "n * l \<noteq> 1"
    using assms by (simp add: pos_zmult_eq_1_iff)
  then show ?thesis by (simp add: BatchNorm1d_def)
qed

lemma BatchNorm1d_2d:
  assumes "training \<longrightarrow> n \<noteq> 1"
  shows "BatchNorm1d training c [n, c] = Some [n, c]"
  using assms by (simp add: BatchNorm1d_def)

lemma Encoder_block_eq:
  assumes "0 < b" and "0 < l"
  shows "Encoder_block training c [b, c, l] = Some [b, 128, (l - 1) div 2 + 1]"
proof -
  have conv: "Conv1d c 128 12 6 [b, c, l] = Some [b, 128, l + 1]"
    using assms by (simp add: Conv1d_def Let_def)
  have bn: "BatchNorm1d training 128 [b, 128, l + 1] = Some [b, 128, l + 1]"
    using assms by (intro BatchNorm1d_3d) simp_all
  have pool: "MaxPool1d 2 2 [b, 128, l + 1] = Some [b, 128, (l - 1) div 2 + 1]"
    using assms by (simp add: MaxPool1d_def Let_def)
  show ?thesis by (simp add: Encoder_block_def conv bn pool)
qed

lemma Encoder_features_model:
  assumes "0 < b"
  shows "Encoder_features training (encoder model) [b, 14, 4500] = Some [b, 128, 563]"
proof -
  have "enc_input_dim (encoder model) = 14"
    by (simp add: model_def CVAE_init_def Encoder_init_def Let_def)
  then show ?thesis
    using assms by (simp add: Encoder_features_def Encoder_block_eq)
qed

lemma Encoder_forward_model:
  assumes "0 < b" and "training \<longrightarrow> 2 \<le> b"
  shows "Encoder_forward training (encoder model) [b, 14, 4500] [b, 4]
         = Some ([b, 512], [b, 512])"
proof -
  have bn0: "BatchNorm1d training 516 [b, 516] = Some [b, 516]"
    using assms(2) by (intro BatchNorm1d_2d) auto
  have dims: "enc_condition_dim (encoder model) = 4" "enc_latent_dim (encoder model) = 512"
    by (simp_all add: model_def CVAE_init_def Encoder_init_def Let_def)
  show ?thesis
    using assms(1)
    by (simp add: Encoder_forward_def Encoder_features_model enc_seq_len_model dims bn0
        view_flat_def Linear_def cat_last_def)
qed

lemma reparameterize_shape_same: "reparameterize_shape [b, d] [b, d] = Some [b, d]"
  by (simp add: reparameterize_shape_def broadcast_def)

lemma Decoder_project_model:
  assumes "0 < b"
  shows "Decoder_project training (decoder model) [b, 512] [b, 4] = Some [b, 128, 563]"
proof -
  have dims: "dec_latent_dim (decoder model) = 512" "dec_condition_dim (decoder model) = 4"
    "dec_seq_len (decoder model) = 563"
    by (simp_all add: model_def CVAE_init_def Encoder_init_def Decoder_init_def
        calc_seq_len_def Let_def)
  have bn: "BatchNorm1d training 128 [b, 128, 563] = Some [b, 128, 563]"
    using assms by (intro BatchNorm1d_3d) simp_all
  show ?thesis
    using assms
    by (simp add: Decoder_project_def dims bn Linear_def cat_last_def view_channels_def)
qed

lemma Decoder_block_eq:
  assumes "0 < b" and "0 < l"
  shows "Decoder_block training [b, 128, l] = Some [b, 128, 2 * l - 1]"
proof -
  have up: "Upsample_scale 2 [b, 128, l] = Some [b, 128, l * 2]"
    using assms by (simp add: Upsample_scale_def)
  have bn: "BatchNorm1d training 128 [b, 128, l * 2] = Some [b, 128, l * 2]"
    using assms by (intro BatchNorm1d_3d) simp_all
  have tc: "ConvTranspose1d 128 128 12 6 [b, 128, l * 2] = Some [b, 128, 2 * l - 1]"
    using assms by (simp add: ConvTranspose1d_def Let_def)
  show ?thesis by (simp add: Decoder_block_def up bn tc)
qed

lemma Decoder_block3_model:
  assumes "0 < b" and "0 < l"
  shows "Decoder_block3 training (decoder model) [b, 128, l] = Some [b, 14, 4500]"
proof -
  have out: "dec_output_dim (decoder model) = 14"
    by (simp add: model_def CVAE_init_def Decoder_init_def Let_def)
  have up: "Upsample_size 4501 [b, 128, l] = Some [b, 128, 4501]"
    using assms by (simp add: Upsample_size_def)
  have bn: "BatchNorm1d training 128 [b, 128, 4501] = Some [b, 128, 4501]"
    using assms by (intro BatchNorm1d_3d) simp_all
  have tc: "ConvTranspose1d 128 14 12 6 [b, 128, 4501] = Some [b, 14, 4500]"
    by (simp add: ConvTranspose1d_def Let_def)
  show ?thesis by (simp add: Decoder_block3_def out up bn tc)
qed

lemma Decoder_forward_model:
  assumes "0 < b"
  shows "Decoder_forward training (decoder model) [b, 512] [b, 4] = Some [b, 14, 4500]"
  using assms
  by (simp add: Decoder_forward_def Decoder_project_model Decoder_block_eq Decoder_block3_model)

text \<open>
  The length 4500 of the reconstruction is the decoder's own (line 125), not the length of
  the input: a model built for waveforms of 1000 time steps also returns 4500.
\<close>

lemma CVAE_forward_other_length:
  assumes "0 < b" and "training \<longrightarrow> 2 \<le> b"
  shows "CVAE_forward training (CVAE_init 14 1000 512 4) [b, 14, 1000] [b, 4]
         = Some ([b, 14, 4500], [b, 512], [b, 512])"
proof -
  have bn0: "BatchNorm1d training 516 [b, 516] = Some [b, 516]"
    using assms(2) by (intro BatchNorm1d_2d) auto
  have enc: "Encoder_forward training (encoder (CVAE_init 14 1000 512 4)) [b, 14, 1000] [b, 4]
         = Some ([b, 512], [b, 512])"
    using assms(1)
    by (simp add: Encoder_forward_def Encoder_features_def Encoder_block_eq CVAE_init_def
        Encoder_init_def calc_seq_len_def bn0 view_flat_def Linear_def cat_last_def Let_def)
  have bn: "BatchNorm1d training 128 [b, 128, 125] = Some [b, 128, 125]"
    using assms(1) by (intro BatchNorm1d_3d) simp_all
  have proj: "Decoder_project training (decoder (CVAE_init 14 1000 512 4)) [b, 512] [b, 4]
         = Some [b, 128, 125]"
    using assms(1)
    by (simp add: Decoder_project_def CVAE_init_def Encoder_init_def Decoder_init_def
        calc_seq_len_def bn Linear_def cat_last_def view_channels_def Let_def)
  have out: "dec_output_dim (decoder (CVAE_init 14 1000 512 4)) = 14"
    by (simp add: CVAE_init_def Decoder_init_def Let_def)
  have up: "Upsample_size 4501 [b, 128, 497] = Some [b, 128, 4501]"
    by (simp add: Upsample_size_def)
  have bn3: "BatchNorm1d training 128 [b, 128, 4501] = Some [b, 128, 4501]"
    using assms(1) by (intro BatchNorm1d_3d) simp_all
  have tc: "ConvTranspose1d 128 14 12 6 [b, 128, 4501] = Some [b, 14, 4500]"
    by (simp add: ConvTranspose1d_def Let_def)
  have dec: "Decoder_forward training (decoder (CVAE_init 14 1000 512 4)) [b, 512] [b, 4]
         = Some [b, 14, 4500]"
    using assms(1)
    by (simp add: Decoder_forward_def proj Decoder_block_eq Decoder_block3_def out up bn3 tc)
  show ?thesis
    by (simp add: CVAE_forward_def enc reparameterize_shape_same dec)
qed

text \<open>
  The condition has to be a matrix, one row of 4 entries for each waveform of the batch.
  The script's own call (line 466) adds a dimension to it with \<^verbatim>\<open>unsqueeze(0)\<close>: with a
  condition of shape (1, 1, 4) the concatenation in the encoder raises, in either mode.
\<close>

lemma CVAE_forward_unsqueezed_condition:
  "CVAE_forward training model [1, 14, 4500] [1, 1, 4] = None"
proof -
  have "Encoder_forward training (encoder model) [1, 14, 4500] [1, 1, 4] = None"
    by (simp add: Encoder_forward_def Encoder_features_model enc_seq_len_model
        view_flat_def Linear_def cat_last_def)
  then show ?thesis by (simp add: CVAE_forward_def)
qed

text \<open>
  Claim C1, as stated: for every waveform of shape (14, 4500) with its condition vector the
  forward pass returns a reconstruction of the shape of its input. In training mode, the
  mode of the model as constructed, a batch of one waveform returns nothing: the batch
  normalization \<^verbatim>\<open>bn0\<close> of the encoder gets one value per channel, shape (1, 516), and
  raises.
\<close>

theorem CVAE_forward_training_single_counterexample:
  "CVAE_forward True model [1, 14, 4500] [1, 4] = None"
proof -
  have dims: "enc_condition_dim (encoder model) = 4"
    by (simp add: model_def CVAE_init_def Encoder_init_def Let_def)
  have "Encoder_forward True (encoder model) [1, 14, 4500] [1, 4] = None"
    by (simp add: Encoder_forward_def Encoder_features_model enc_seq_len_model dims
        view_flat_def Linear_def cat_last_def BatchNorm1d_def)
  then show ?thesis by (simp add: CVAE_forward_def)
qed

text \<open>
  Claim C1, amended. For a batch of \<open>b\<close> waveforms of shape (14, 4500), each with a
  condition vector of 4 entries, in evaluation mode for every \<open>b \<ge> 1\<close> and in training
  mode for every \<open>b \<ge> 2\<close>: the encoder computes the reduced length
  \<open>calc_seq_len 4500 = 563\<close>, which is the length its three blocks leave (4500, 2250,
  1125, 563); the decoder is constructed with that same length; the decoder's projection
  returns 128 channels of length 563, its two doubling blocks take 563 to 1126 and 1125, and
  1125 to 2250 and 2249, its last block resizes 2249 to 4501 and its transposed convolution
  returns 14 channels of length 4500; and the forward pass returns a reconstruction of the
  shape of its input, \<open>[b, 14, 4500]\<close>, with \<open>mu\<close> and \<open>logvar\<close> of shape \<open>[b, 512]\<close>.
  The reconstruction comes from the decoder: a model built for another length, 1000, also
  returns length 4500.
\<close>

theorem CVAE_forward_shape_roundtrip:
  assumes "0 < b" and "training \<longrightarrow> 2 \<le> b"
  shows "calc_seq_len 4500 = 563
       \<and> enc_seq_len (encoder model) = 563
       \<and> dec_seq_len (decoder model) = enc_seq_len (encoder model)
       \<and> Encoder_block training 14 [b, 14, 4500] = Some [b, 128, 2250]
       \<and> Encoder_block training 128 [b, 128, 2250] = Some [b, 128, 1125]
       \<and> Encoder_block training 128 [b, 128, 1125] = Some [b, 128, 563]
       \<and> Encoder_features training (encoder model) [b, 14, 4500]
           = Some [b, 128, enc_seq_len (encoder model)]
       \<and> Encoder_forward training (encoder model) [b, 14, 4500] [b, 4]
           = Some ([b, 512], [b, 512])
       \<and> Decoder_project training (decoder model) [b, 512] [b, 4]
           = Some [b, 128, dec_seq_len (decoder model)]
       \<and> Upsample_scale 2 [b, 128, 563] = Some [b, 128, 1126]
       \<and> ConvTranspose1d 128 128 12 6 [b, 128, 1126] = Some [b, 128, 1125]
       \<and> Decoder_block training [b, 128, 563] = Some [b, 128, 1125]
       \<and> Upsample_scale 2 [b, 128, 1125] = Some [b, 128, 2250]
       \<and> ConvTranspose1d 128 128 12 6 [b, 128, 2250] = Some [b, 128, 2249]
       \<and> Decoder_block training [b, 128, 1125] = Some [b, 128, 2249]
       \<and> Upsample_size 4501 [b, 128, 2249] = Some [b, 128, 4501]
       \<and> ConvTranspose1d 128 14 12 6 [b, 128, 4501] = Some [b, 14, 4500]
       \<and> Decoder_block3 training (decoder model) [b, 128, 2249] = Some [b, 14, 4500]
       \<and> Decoder_forward training (decoder model) [b, 512] [b, 4] = Some [b, 14, 4500]
       \<and> CVAE_forward training model [b, 14, 4500] [b, 4]
           = Some ([b, 14, 4500], [b, 512], [b, 512])
       \<and> CVAE_forward training (CVAE_init 14 1000 512 4) [b, 14, 1000] [b, 4]
           = Some ([b, 14, 4500], [b, 512], [b, 512])"
proof -
  have enc_blocks: "Encoder_block training 14 [b, 14, 4500] = Some [b, 128, 2250]"
    "Encoder_block training 128 [b, 128, 2250] = Some [b, 128, 1125]"
    "Encoder_block training 128 [b, 128, 1125] = Some [b, 128, 563]"
    using assms(1) by (simp_all add: Encoder_block_eq)
  have feat: "Encoder_features training (encoder model) [b, 14, 4500]
           = Some [b, 128, enc_seq_len (encoder model)]"
    using assms(1) by (simp add: Encoder_features_model enc_seq_len_model)
  have enc: "Encoder_forward training (encoder model) [b, 14, 4500] [b, 4]
           = Some ([b, 512], [b, 512])"
    using assms by (rule Encoder_forward_model)
  have proj: "Decoder_project training (decoder model) [b, 512] [b, 4]
           = Some [b, 128, dec_seq_len (decoder model)]"
    using assms(1) by (simp add: Decoder_project_model dec_seq_len_model enc_seq_len_model)
  have layers: "Upsample_scale 2 [b, 128, 563] = Some [b, 128, 1126]"
    "ConvTranspose1d 128 128 12 6 [b, 128, 1126] = Some [b, 128, 1125]"
    "Upsample_scale 2 [b, 128, 1125] = Some [b, 128, 2250]"
    "ConvTranspose1d 128 128 12 6 [b, 128, 2250] = Some [b, 128, 2249]"
    "Upsample_size 4501 [b, 128, 2249] = Some [b, 128, 4501]"
    "ConvTranspose1d 128 14 12 6 [b, 128, 4501] = Some [b, 14, 4500]"
    by (simp_all add: Upsample_scale_def Upsample_size_def ConvTranspose1d_def Let_def)
  have dec_blocks: "Decoder_block training [b, 128, 563] = Some [b, 128, 1125]"
    "Decoder_block training [b, 128, 1125] = Some [b, 128, 2249]"
    "Decoder_block3 training (decoder model) [b, 128, 2249] = Some [b, 14, 4500]"
    using assms(1) by (simp_all add: Decoder_block_eq Decoder_block3_model)
  have dec: "Decoder_forward training (decoder model) [b, 512] [b, 4] = Some [b, 14, 4500]"
    using assms(1) by (rule Decoder_forward_model)
  have fwd: "CVAE_forward training model [b, 14, 4500] [b, 4]
           = Some ([b, 14, 4500], [b, 512], [b, 512])"
    by (simp add: CVAE_forward_def enc reparameterize_shape_same dec)
  have other: "CVAE_forward training (CVAE_init 14 1000 512 4) [b, 14, 1000] [b, 4]
           = Some ([b, 14, 4500], [b, 512], [b, 512])"
    using assms by (rule CVAE_forward_other_length)
  from calc_seq_len_4500 enc_seq_len_model dec_seq_len_model enc_blocks feat enc proj layers
    dec_blocks dec fwd other
  show ?thesis by simp
qed

text \<open>
  The witness: a batch of two in training mode, and the batch of one in evaluation mode
  that the script runs (line 465).
\<close>

theorem CVAE_forward_shape_roundtrip_witness:
  "(0::int) < 2 \<and> (2::int) \<le> 2
   \<and> Decoder_forward True (decoder model) [2, 512] [2, 4] = Some [2, 14, 4500]
   \<and> CVAE_forward True model [2, 14, 4500] [2, 4] = Some ([2, 14, 4500], [2, 512], [2, 512])
   \<and> CVAE_forward False model [1, 14, 4500] [1, 4] = Some ([1, 14, 4500], [1, 512], [1, 512])"
  using CVAE_forward_shape_roundtrip [of 2 True] CVAE_forward_shape_roundtrip [of 1 False]
  by simp

section \<open>Reparameterization\<close>

lemmas tensor_defs =
  randn_like_def t_exp_def t_pow_def t_scale_def t_shift_def t_add_def t_sub_def t_mul_def

lemma reparameterize_length:
  "length mu = length logvar \<Longrightarrow> length (reparameterize draw mu logvar) = length mu"
  by (simp add: reparameterize_def tensor_defs Let_def)

lemma reparameterize_nth:
  "length mu = length logvar \<Longrightarrow> i < length mu \<Longrightarrow>
   reparameterize draw mu logvar ! i = mu ! i + draw i * exp (0.5 * logvar ! i)"
  by (simp add: reparameterize_def tensor_defs Let_def)

lemma reparameterize_zero_logvar:
  "reparameterize draw mu (replicate (length mu) 0) = t_add mu (randn_like draw mu)"
  by (auto simp add: reparameterize_def tensor_defs Let_def intro!: nth_equalityI)

text \<open>
  Claim C3. For \<open>mu\<close> and \<open>logvar\<close> of the same shape, \<open>reparameterize\<close> returns a tensor
  of that shape whose element \<open>i\<close> is \<open>mu ! i + eps ! i * exp (0.5 * logvar ! i)\<close>, where
  \<open>eps\<close> is the noise tensor that \<open>randn_like\<close> returns, of the same shape. When \<open>logvar\<close>
  is the zero vector the standard deviation is \<open>exp 0 = 1\<close> and the result is \<open>mu + eps\<close>.
\<close>

theorem reparameterize_spec:
  assumes "length mu = length logvar"
  shows "length (randn_like draw (t_exp (t_scale 0.5 logvar))) = length mu
       \<and> length (reparameterize draw mu logvar) = length mu
       \<and> (\<forall>i < length mu.
            reparameterize draw mu logvar ! i
              = mu ! i + randn_like draw mu ! i * exp (0.5 * logvar ! i))
       \<and> reparameterize draw mu (replicate (length mu) 0) = t_add mu (randn_like draw mu)"
proof -
  have "length (randn_like draw (t_exp (t_scale 0.5 logvar))) = length mu"
    using assms by (simp add: tensor_defs)
  moreover have "length (reparameterize draw mu logvar) = length mu"
    using assms by (rule reparameterize_length)
  moreover have "\<forall>i < length mu.
      reparameterize draw mu logvar ! i = mu ! i + randn_like draw mu ! i * exp (0.5 * logvar ! i)"
    using assms by (simp add: reparameterize_nth randn_like_def)
  ultimately show ?thesis
    using reparameterize_zero_logvar by simp
qed

text \<open>The draws of the witness: position \<open>i\<close> gets the number \<open>i + 1\<close>.\<close>

theorem reparameterize_spec_witness:
  "length [1, 2 :: real] = length [0, 0 :: real]
   \<and> reparameterize (\<lambda>i. real i + 1) [1, 2] (replicate (length [1, 2 :: real]) 0)
       = t_add [1, 2] (randn_like (\<lambda>i. real i + 1) [1, 2])
   \<and> reparameterize (\<lambda>i. real i + 1) [1, 2] [0, 0] = [2, 4]"
proof -
  have "reparameterize (\<lambda>i. real i + 1) [1, 2] (replicate (length [1, 2 :: real]) 0)
       = t_add [1, 2] (randn_like (\<lambda>i. real i + 1) [1, 2])"
    using reparameterize_spec [of "[1, 2]" "[0, 0]" "\<lambda>i. real i + 1"] by simp
  moreover have "t_add [1, 2] (randn_like (\<lambda>i. real i + 1) [1, 2]) = [2, 4]"
    by (simp add: tensor_defs upt_rec)
  ultimately show ?thesis by simp
qed

section \<open>Loss\<close>

lemma mse_loss_sum_nth:
  "length a = length b \<Longrightarrow> mse_loss_sum a b = (\<Sum>i<length b. (a ! i - b ! i)\<^sup>2)"
  by (simp add: mse_loss_sum_def tensor_defs sum_list_sum_nth atLeast0LessThan)

lemma KLD_nth:
  "length mu = length logvar \<Longrightarrow>
   KLD mu logvar
     = - 0.5 * (\<Sum>j<length mu. 1 + logvar ! j - (mu ! j)\<^sup>2 - exp (logvar ! j) + 1 / 10 ^ 8)"
  by (simp add: KLD_def tensor_defs sum_list_sum_nth atLeast0LessThan algebra_simps)

lemma mse_loss_sum_append:
  "length a = length b \<Longrightarrow>
   mse_loss_sum (a @ a') (b @ b') = mse_loss_sum a b + mse_loss_sum a' b'"
  by (simp add: mse_loss_sum_def tensor_defs)

lemma KLD_append:
  "length mu = length logvar \<Longrightarrow>
   KLD (mu @ mu') (logvar @ logvar') = KLD mu logvar + KLD mu' logvar'"
  by (simp add: KLD_def tensor_defs algebra_simps)


lemma KLD_zero: "KLD (replicate n 0) (replicate n 0) = - (real n * 5 / 10 ^ 9)"
  by (induction n) (simp_all add: KLD_def tensor_defs algebra_simps)


text \<open>
  Claim C4. The loss is the sum over all elements of the squared differences between
  \<open>x_recon\<close> and \<open>x\<close>, not divided by their number, plus \<open>-0.5\<close> times the sum over the
  latent elements of \<open>1 + logvar - mu\<^sup>2 - exp logvar + 1e-8\<close>. Both terms are sums: the
  loss of two batches put together is the sum of their losses, so the loss of a batch
  repeated twice is twice the loss of the batch.
\<close>

theorem loss_function_sum_scale:
  assumes "length x_recon = length x" and "length mu = length logvar"
  shows "loss_function x_recon x mu logvar
           = (\<Sum>i<length x. (x_recon ! i - x ! i)\<^sup>2)
             + - 0.5 * (\<Sum>j<length mu.
                          1 + logvar ! j - (mu ! j)\<^sup>2 - exp (logvar ! j) + 1 / 10 ^ 8)
       \<and> loss_function (x_recon @ x_recon') (x @ x') (mu @ mu') (logvar @ logvar')
           = loss_function x_recon x mu logvar + loss_function x_recon' x' mu' logvar'
       \<and> loss_function (x_recon @ x_recon) (x @ x) (mu @ mu) (logvar @ logvar)
           = 2 * loss_function x_recon x mu logvar"
proof -
  have "loss_function x_recon x mu logvar
           = (\<Sum>i<length x. (x_recon ! i - x ! i)\<^sup>2)
             + - 0.5 * (\<Sum>j<length mu.
                          1 + logvar ! j - (mu ! j)\<^sup>2 - exp (logvar ! j) + 1 / 10 ^ 8)"
    using assms by (simp add: loss_function_def BCE_def mse_loss_sum_nth KLD_nth)
  moreover have add: "loss_function (x_recon @ a) (x @ b) (mu @ c) (logvar @ d)
           = loss_function x_recon x mu logvar + loss_function a b c d" for a b c d
    using assms by (simp add: loss_function_def BCE_def mse_loss_sum_append KLD_append)
  ultimately show ?thesis by (simp add: add)
qed

theorem loss_function_sum_scale_witness:
  "length [1, 3 :: real] = length [0, 1 :: real] \<and> length [0 :: real] = length [0 :: real]
   \<and> loss_function [1, 3] [0, 1] [0] [0] = 5 - 5 / 10 ^ 9
   \<and> loss_function ([1, 3] @ [1, 3]) ([0, 1] @ [0, 1]) ([0] @ [0]) ([0] @ [0])
       = 2 * loss_function [1, 3] [0, 1] [0] [0]"
proof -
  have x: "length [1, 3 :: real] = length [0, 1 :: real]" by simp
  have l: "length [0 :: real] = length [0 :: real]" by simp
  have "loss_function ([1, 3] @ [1, 3]) ([0, 1] @ [0, 1]) ([0] @ [0]) ([0] @ [0])
       = 2 * loss_function [1, 3] [0, 1] [0] [0]"
    by (rule loss_function_sum_scale [OF x l, THEN conjunct2, THEN conjunct2])
  moreover have "loss_function [1, 3] [0, 1] [0] [0] = 5 - 5 / 10 ^ 9"
    by (simp add: loss_function_def BCE_def mse_loss_sum_def KLD_def tensor_defs)
  ultimately show ?thesis by simp
qed

text \<open>
  Claim C5, as stated: with \<open>mu\<close> and \<open>logvar\<close> zero the KL term is exactly 0. It is not:
  for the 512 latent elements of the script's model it is \<open>-2.56e-6\<close>.
\<close>

theorem KLD_zero_counterexample: "KLD (replicate 512 0) (replicate 512 0) \<noteq> 0"
  unfolding KLD_zero by simp

text \<open>
  Claim C5, amended. With \<open>mu\<close> and \<open>logvar\<close> zero in each of the \<open>n\<close> latent elements,
  every summand is the constant \<open>1e-8\<close> alone and the KL term is \<open>-0.5 * n * 1e-8\<close>,
  that is \<open>-5e-9\<close> for each latent element: zero but for the constant.
\<close>

theorem KLD_zero_offset:
  "KLD (replicate n 0) (replicate n 0) = - 0.5 * (real n * (1 / 10 ^ 8))
   \<and> KLD (replicate n 0) (replicate n 0) = - (real n * 5 / 10 ^ 9)"
  by (simp add: KLD_zero)



section \<open>The range of the decoder's output\<close>

lemma sigmoid_bounds: "0 < sigmoid v \<and> sigmoid v < 1"
proof -
  have "0 < exp (- v)" by simp
  then show ?thesis by (simp add: sigmoid_def add_pos_pos)
qed

lemma exp_minus_10: "exp (- 10 :: real) < 1 / 4"
proof -
  have "1 + (10::real) \<le> exp 10" by (rule exp_ge_add_one_self)
  then have "(4::real) < exp 10" by linarith
  then have "1 / exp (10::real) < 1 / 4" by (simp add: field_simps)
  then show ?thesis by (simp add: exp_minus inverse_eq_divide)
qed

lemma sigmoid_10: "4 / 5 < sigmoid 10"
proof -
  have p: "0 < 1 + exp (- 10 :: real)" by (simp add: add_pos_pos)
  have "4 / 5 < 1 / (1 + exp (- 10 :: real))"
    using exp_minus_10 p by (simp add: pos_less_divide_eq)
  then show ?thesis by (simp add: sigmoid_def)
qed

lemma Decoder_x_recon_training_elem:
  assumes "y \<in> set (Decoder_x_recon True keep a)"
  shows "y = 0 \<or> (\<exists>i. y = sigmoid (a ! i) * (5 / 4))"
  using assms
  by (auto simp add: Decoder_x_recon_def Dropout_def t_sigmoid_def dropout_prob_def)

text \<open>
  Claim C2, as stated: every element that the decoder's forward method returns lies in
  [0, 1]. In training mode, the mode a module is in until \<^verbatim>\<open>eval()\<close> is called, the
  dropout that follows the sigmoid multiplies the elements it keeps by 1.25: where
  \<^verbatim>\<open>trans_conv3\<close> returns 10, the element returned is above 1.
\<close>

theorem Decoder_x_recon_training_counterexample:
  "1 < Decoder_x_recon True keep_all [10] ! 0"
  using sigmoid_10
  by (simp add: Decoder_x_recon_def Dropout_def t_sigmoid_def keep_all_def dropout_prob_def)

text \<open>
  Claim C2, amended. In evaluation mode, which the script sets before it runs the model,
  every element of the reconstruction lies in [0, 1]; in training mode every element lies
  in [0, 1.25].
\<close>

theorem Decoder_x_recon_range:
  "(\<forall>y \<in> set (Decoder_x_recon False keep a). 0 \<le> y \<and> y \<le> 1)
   \<and> (\<forall>y \<in> set (Decoder_x_recon True keep a). 0 \<le> y \<and> y \<le> 1.25)"
proof -
  have "0 \<le> y \<and> y \<le> 1" if "y \<in> set (Decoder_x_recon False keep a)" for y
    using that sigmoid_bounds
    by (auto simp add: Decoder_x_recon_def Dropout_def t_sigmoid_def intro: less_imp_le)
  moreover have "0 \<le> y \<and> y \<le> 1.25" if "y \<in> set (Decoder_x_recon True keep a)" for y
  proof -
    from that consider "y = 0" | i where "y = sigmoid (a ! i) * (5 / 4)"
      using Decoder_x_recon_training_elem by blast
    then show ?thesis
    proof cases
      case 1
      then show ?thesis by simp
    next
      case 2
      from sigmoid_bounds [of "a ! i"] have "0 < sigmoid (a ! i)" "sigmoid (a ! i) < 1"
        by simp_all
      with 2 show ?thesis by simp
    qed
  qed
  ultimately show ?thesis by blast
qed

theorem Decoder_x_recon_range_witness:
  "Decoder_x_recon False keep_all [0] = [1 / 2]
   \<and> 0 \<le> Decoder_x_recon False keep_all [0] ! 0 \<and> Decoder_x_recon False keep_all [0] ! 0 \<le> 1
   \<and> Decoder_x_recon True keep_all [0] = [5 / 8]
   \<and> 0 \<le> Decoder_x_recon True keep_all [0] ! 0 \<and> Decoder_x_recon True keep_all [0] ! 0 \<le> 1.25"
proof -
  have e: "Decoder_x_recon False keep_all [0] = [1 / 2]"
    by (simp add: Decoder_x_recon_def Dropout_def t_sigmoid_def sigmoid_def)
  have t: "Decoder_x_recon True keep_all [0] = [5 / 8]"
    by (simp add: Decoder_x_recon_def Dropout_def t_sigmoid_def sigmoid_def keep_all_def
        dropout_prob_def)
  from Decoder_x_recon_range [of keep_all "[0]"] e t show ?thesis by simp
qed

section \<open>Channel groups\<close>

lemma range_len_features:
  "range_len features = [0, 1, 2, 3, 4, 5, 6, 7, 8, 9, 10, 11, 12, 13]"
  by (simp add: range_len_def features_def upto_rec1)

lemmas group_defs = in_IGBT_def in_FLUX_def in_CAP_def in_MOD_def

text \<open>
  Claim C8. For every index that the scaling loops go through, exactly one of the four
  guards holds; the loops go through the 14 indices 0 to 13; indices 0 to 5 take the IGBT
  branch, 6 to 8 the flux branch, 9 and 10 the capacitor branch and 11 to 13 the modulator
  branch. So the four ranges are pairwise disjoint, cover the 14 channels, and each channel
  is scaled by exactly one group's scaler.
\<close>

theorem channel_groups_partition:
  "(\<forall>i \<in> set (range_len features). length (groups_of i) = 1)
   \<and> length features = 14
   \<and> filter in_IGBT (range_len features) = [0, 1, 2, 3, 4, 5]
   \<and> filter in_FLUX (range_len features) = [6, 7, 8]
   \<and> filter in_CAP (range_len features) = [9, 10]
   \<and> filter in_MOD (range_len features) = [11, 12, 13]"
proof -
  have "\<forall>i \<in> set (range_len features). length (groups_of i) = 1"
    by (simp add: range_len_features groups_of_def group_defs)
  moreover have "length features = 14"
    by (simp add: features_def)
  ultimately show ?thesis
    by (simp add: range_len_features group_defs)
qed

theorem channel_groups_partition_witness:
  "7 \<in> set (range_len features) \<and> length (groups_of 7) = 1 \<and> groups_of 7 = [FLUX]"
proof -
  have m: "7 \<in> set (range_len features)"
    by (simp add: range_len_features)
  have "length (groups_of 7) = 1"
    using channel_groups_partition [THEN conjunct1] m by (rule bspec)
  moreover have "groups_of 7 = [FLUX]"
    by (simp add: groups_of_def group_defs)
  ultimately show ?thesis using m by simp
qed

section \<open>Fitting and applying the scalers\<close>

lemma list_of_length_14:
  "length (X::'a list) = 14 \<Longrightarrow>
   \<exists>a0 a1 a2 a3 a4 a5 a6 a7 a8 a9 a10 a11 a12 a13.
     X = [a0, a1, a2, a3, a4, a5, a6, a7, a8, a9, a10, a11, a12, a13]"
  by (auto simp add: numeral_eq_Suc length_Suc_conv)

lemma fit_transform_channel_eq:
  "0 \<le> i \<Longrightarrow> nat i < length X \<Longrightarrow> X ! nat i \<noteq> [] \<Longrightarrow>
   fit_transform_channel sc X i
     = Some (refit sc 1 (X ! nat i), X[nat i := minmax_col (X ! nat i)])"
  by (simp add: fit_transform_channel_def get_channel_def set_channel_def fit_transform_def
      fit_def transform_def refit_def minmax_col_def Let_def)

text \<open>One pass of the loop body refits the scaler of the one group the index belongs to.\<close>

lemma minmax_step_eq:
  "0 \<le> i \<Longrightarrow> nat i < length X \<Longrightarrow> X ! nat i \<noteq> [] \<Longrightarrow>
   minmax_step i (S, X) = Some (
     (if in_IGBT i then S\<lparr>scaler_IGBT := refit (scaler_IGBT S) 1 (X ! nat i)\<rparr>
      else if in_FLUX i then S\<lparr>scaler_FLUX := refit (scaler_FLUX S) 1 (X ! nat i)\<rparr>
      else if in_CAP i then S\<lparr>scaler_CAP := refit (scaler_CAP S) 1 (X ! nat i)\<rparr>
      else S\<lparr>scaler_MOD := refit (scaler_MOD S) 1 (X ! nat i)\<rparr>),
     X[nat i := minmax_col (X ! nat i)])"
  by (auto simp add: minmax_step_def fit_transform_channel_eq group_defs)

text \<open>
  One min-max loop: every channel is scaled by its own minimum and maximum, and each
  scaler is left with the parameters of the last channel of its group.
\<close>

lemma minmax_loop_eq:
  assumes "length X = 14" and "\<forall>c \<in> set X. c \<noteq> []"
  shows "minmax_loop (S, X) = Some (
     S\<lparr>scaler_IGBT := refit (scaler_IGBT S) 6 (X ! 5),
       scaler_FLUX := refit (scaler_FLUX S) 3 (X ! 8),
       scaler_CAP := refit (scaler_CAP S) 2 (X ! 10),
       scaler_MOD := refit (scaler_MOD S) 3 (X ! 13)\<rparr>, map minmax_col X)"
proof -
  from list_of_length_14 [OF assms(1)]
  obtain a0 a1 a2 a3 a4 a5 a6 a7 a8 a9 a10 a11 a12 a13 where
    X: "X = [a0, a1, a2, a3, a4, a5, a6, a7, a8, a9, a10, a11, a12, a13]"
    by (elim exE)
  with assms(2) show ?thesis
    by (simp add: minmax_loop_def range_len_features minmax_step_eq group_defs refit_def)
qed

lemma transform_channel_eq:
  "0 \<le> i \<Longrightarrow> nat i < length D \<Longrightarrow> D ! nat i \<noteq> [] \<Longrightarrow> fitted sc = Some p \<Longrightarrow>
   transform_channel sc D i = Some (D[nat i := apply_params p (D ! nat i)])"
  by (simp add: transform_channel_def get_channel_def set_channel_def transform_def Let_def)

lemma transform_loop_eq:
  assumes "length D = 14" and "\<forall>c \<in> set D. c \<noteq> []"
    and "fitted (scaler_IGBT S) = Some pI" and "fitted (scaler_FLUX S) = Some pF"
    and "fitted (scaler_CAP S) = Some pC" and "fitted (scaler_MOD S) = Some pM"
  shows "for_each (transform_step S) (range_len features) D =
     Some (map (apply_params pI) (take 6 D) @ map (apply_params pF) (take 3 (drop 6 D))
           @ map (apply_params pC) (take 2 (drop 9 D)) @ map (apply_params pM) (drop 11 D))"
proof -
  from list_of_length_14 [OF assms(1)]
  obtain a0 a1 a2 a3 a4 a5 a6 a7 a8 a9 a10 a11 a12 a13 where
    D: "D = [a0, a1, a2, a3, a4, a5, a6, a7, a8, a9, a10, a11, a12, a13]"
    by (elim exE)
  show ?thesis
    using assms(2-6)
    by (simp add: D range_len_features transform_step_def transform_channel_eq group_defs)
qed

section \<open>The averaging loop writes into the loaded array\<close>

text \<open>
  One pass of the accumulation loop, for an \<^verbatim>\<open>Xnormal_RFQ\<close> that is the whole of buffer
  0 and an \<^verbatim>\<open>avg_RFQ_Xnormal\<close> that is the view of its first sample: the sum goes where
  the first sample was.
\<close>

lemma accumulate_step_eq:
  assumes "mem \<noteq> []" and "mem ! 0 = r # rest" and "1 \<le> i" and "i \<le> length rest"
    and "length rest < n"
  shows "accumulate_step \<lparr>nd_base = 0, nd_start = 0, nd_len = n\<rparr>
           \<lparr>nd_base = 0, nd_start = 0, nd_len = 1\<rparr> i mem
         = Some (mem[0 := matrix_add r (rest ! (i - 1)) # rest])"
  using assms
  by (simp add: accumulate_step_def sample_at_def iadd_def rows_of_def store_rows_def nth_Cons')

lemma accumulate_loop_eq:
  assumes "mem \<noteq> []" and "mem ! 0 = r # rest" and "\<forall>i \<in> set ixs. 1 \<le> i \<and> i \<le> length rest"
    and "length rest < n"
  shows "for_each (accumulate_step \<lparr>nd_base = 0, nd_start = 0, nd_len = n\<rparr>
           \<lparr>nd_base = 0, nd_start = 0, nd_len = 1\<rparr>) ixs mem
         = Some (mem[0 := fold (\<lambda>i acc. matrix_add acc (rest ! (i - 1))) ixs r # rest])"
  using assms
proof (induction ixs arbitrary: mem r)
  case Nil
  then show ?case by (cases mem) simp_all
next
  case (Cons i ixs)
  let ?mem = "mem[0 := matrix_add r (rest ! (i - 1)) # rest]"
  have step: "accumulate_step \<lparr>nd_base = 0, nd_start = 0, nd_len = n\<rparr>
           \<lparr>nd_base = 0, nd_start = 0, nd_len = 1\<rparr> i mem = Some ?mem"
    using Cons.prems by (intro accumulate_step_eq) simp_all
  have "for_each (accumulate_step \<lparr>nd_base = 0, nd_start = 0, nd_len = n\<rparr>
           \<lparr>nd_base = 0, nd_start = 0, nd_len = 1\<rparr>) ixs ?mem
         = Some (?mem[0 := fold (\<lambda>i acc. matrix_add acc (rest ! (i - 1))) ixs
                            (matrix_add r (rest ! (i - 1))) # rest])"
    using Cons.prems by (intro Cons.IH) simp_all
  with step show ?case by simp
qed

lemma matrix_add_const:
  "matrix_add (const_matrix t c a) (const_matrix t c b) = const_matrix t c (a + b)"
  by (simp add: matrix_add_def const_matrix_def zip_replicate map_replicate)

lemma fold_add_const:
  "\<forall>i \<in> set ixs. 1 \<le> i \<and> i \<le> k \<Longrightarrow>
   fold (\<lambda>i acc. matrix_add acc (replicate k (const_matrix t c b) ! (i - 1))) ixs
     (const_matrix t c a) = const_matrix t c (a + real (length ixs) * b)"
proof (induction ixs arbitrary: a)
  case Nil
  then show ?case by simp
next
  case (Cons i ixs)
  from Cons.prems have "1 \<le> i" and "i \<le> k" by simp_all
  then have "i - 1 < k" by arith
  then have "replicate k (const_matrix t c b) ! (i - 1) = const_matrix t c b"
    by (rule nth_replicate)
  with Cons show ?case by (simp add: matrix_add_const algebra_simps)
qed

lemma divide_step_eq:
  assumes "mem \<noteq> []" and "mem ! 0 = r # rest" and "\<forall>row \<in> set r. i < length row"
  shows "divide_step \<lparr>nd_base = 0, nd_start = 0, nd_len = 1\<rparr> i mem
         = Some (mem[0 := channel_div i 524 r # rest])"
  using assms
  by (simp add: divide_step_def div_channel_def rows_of_def store_rows_def list_all_iff)

lemma channel_div_const:
  "i < c \<Longrightarrow> channel_div i d (replicate t row) = replicate t (row[i := row ! i / d])"
  by (simp add: channel_div_def)

lemma divide_loop_eq:
  assumes "mem \<noteq> []" and "mem ! 0 = replicate t row # rest" and "\<forall>i \<in> set ixs. i < length row"
  shows "for_each (divide_step \<lparr>nd_base = 0, nd_start = 0, nd_len = 1\<rparr>) ixs mem
         = Some (mem[0 := replicate t (fold (\<lambda>i row. row[i := row ! i / 524]) ixs row) # rest])"
  using assms
proof (induction ixs arbitrary: mem row)
  case Nil
  then show ?case by (cases mem) simp_all
next
  case (Cons i ixs)
  let ?mem = "mem[0 := replicate t (row[i := row ! i / 524]) # rest]"
  have step: "divide_step \<lparr>nd_base = 0, nd_start = 0, nd_len = 1\<rparr> i mem = Some ?mem"
    using Cons.prems divide_step_eq [of mem "replicate t row" rest i]
    by (simp add: channel_div_def)
  have "for_each (divide_step \<lparr>nd_base = 0, nd_start = 0, nd_len = 1\<rparr>) ixs ?mem
         = Some (?mem[0 := replicate t (fold (\<lambda>i row. row[i := row ! i / 524]) ixs
                    (row[i := row ! i / 524])) # rest])"
    using Cons.prems by (intro Cons.IH) simp_all
  with step show ?case by simp
qed

lemma upt_14: "[0..<14] = [0, 1, 2, 3, 4, 5, 6, 7, 8, 9, 10, 11, 12, 13]"
  by (simp add: upt_rec)

lemma row_14: "fold (\<lambda>i row. row[i := row ! i / d]) [0..<14] (replicate 14 v) = replicate 14 (v / d)"
  by (simp add: upt_14 numeral_eq_Suc)


text \<open>
  Claim C9 on the example: before the averaging, the first sample of \<^verbatim>\<open>Xnormal_RFQ\<close> is
  0 everywhere; after it, it is 523/524 everywhere, the mean of the 524 samples. The slice
  of line 262 is a view, so the in-place additions and divisions of lines 266 and 268 write
  into the buffer of \<^verbatim>\<open>Xnormal_RFQ\<close>: the loaded sample is overwritten.
\<close>

theorem average_RFQ_overwrites_first_sample:
  "sample_at memory_example Xnormal_RFQ_example 0 = Some (const_matrix 4500 14 0)
   \<and> sample_after_average memory_example Xnormal_RFQ_example 0
       = Some (const_matrix 4500 14 (523 / 524))"
proof -
  let ?X = "\<lparr>nd_base = 0, nd_start = 0, nd_len = 524\<rparr>"
  let ?avg = "\<lparr>nd_base = 0, nd_start = 0, nd_len = 1\<rparr>"
  let ?rest = "replicate 523 (const_matrix 4500 14 1)"
  let ?buf = "const_matrix 4500 14 0 # ?rest"
  let ?zeros = "[map (map (map (\<lambda>x. 0::real))) [const_matrix 4500 14 0]]"
  let ?mem1 = "[?buf] @ ?zeros"
  have before: "sample_at memory_example Xnormal_RFQ_example 0 = Some (const_matrix 4500 14 0)"
    by (simp add: sample_at_def rows_of_def memory_example_def Xnormal_RFQ_example_def)
  have like: "rows_of [?buf] \<lparr>nd_base = 0, nd_start = 0, nd_len = Suc 0\<rparr>
      = Some [const_matrix 4500 14 0]"
    by (simp add: rows_of_def)
  have idx: "\<forall>i \<in> set [1..<524]. 1 \<le> i \<and> i \<le> length ?rest"
    by simp
  have acc: "for_each (accumulate_step ?X ?avg) [1..<524] ?mem1
      = Some (?mem1[0 := fold (\<lambda>i acc. matrix_add acc (?rest ! (i - 1))) [1..<524]
                            (const_matrix 4500 14 0) # ?rest])"
    by (rule accumulate_loop_eq [OF _ _ idx]) simp_all
  have sum: "fold (\<lambda>i acc. matrix_add acc (?rest ! (i - 1))) [1..<524] (const_matrix 4500 14 0)
      = const_matrix 4500 14 523"
    using fold_add_const [OF idx [unfolded length_replicate], of 4500 14 1 0] by simp
  let ?mem2 = "[const_matrix 4500 14 523 # ?rest] @ ?zeros"
  have acc': "for_each (accumulate_step ?X ?avg) [1..<524] ?mem1 = Some ?mem2"
    unfolding acc sum by simp
  have dv: "for_each (divide_step ?avg) [0..<14] ?mem2
      = Some (?mem2[0 := replicate 4500 (fold (\<lambda>i row. row[i := row ! i / 524]) [0..<14]
                  (replicate 14 523)) # ?rest])"
    by (rule divide_loop_eq) (simp_all add: const_matrix_def)
  let ?mem3 = "[const_matrix 4500 14 (523 / 524) # ?rest] @ ?zeros"
  have dv': "for_each (divide_step ?avg) [0..<14] ?mem2 = Some ?mem3"
    unfolding dv row_14 by (simp add: const_matrix_def)
  have run: "average_RFQ memory_example Xnormal_RFQ_example = Some (?mem3, ?avg)"
    using acc' dv'
    by (simp add: average_RFQ_def slice_to_def np_zeros_def memory_example_def
        Xnormal_RFQ_example_def like)
  have "sample_after_average memory_example Xnormal_RFQ_example 0
       = Some (const_matrix 4500 14 (523 / 524))"
    unfolding sample_after_average_def run
    by (simp add: sample_at_def rows_of_def Xnormal_RFQ_example_def)
  with before show ?thesis by simp
qed

section \<open>What a run of the script reaches\<close>

text \<open>
  Whatever raises, the statements started in a run of statements that hold an
  \<^verbatim>\<open>exit()\<close> are statements before it, in order, and at most the \<^verbatim>\<open>exit()\<close> itself.
\<close>

lemma run_started_prefix:
  "\<exists>k. fst (run raises (pre @ Exit l # post)) = take k (pre @ [Exit l])"
proof (induction pre)
  case Nil
  show ?case by (rule exI [of _ 1]) simp
next
  case (Cons st pre)
  then obtain k where k: "fst (run raises (pre @ Exit l # post)) = take k (pre @ [Exit l])" ..
  show ?case
  proof (cases st)
    case (Block g a b)
    show ?thesis
    proof (cases "raises st")
      case True
      with Block show ?thesis by (intro exI [of _ 1]) simp
    next
      case False
      with Block k show ?thesis
        by (intro exI [of _ "Suc k"]) (simp add: split_beta)
    qed
  next
    case (Exit l')
    then show ?thesis by (intro exI [of _ 1]) simp
  qed
qed

lemma run_not_Finished: "snd (run raises (pre @ Exit l # post)) \<noteq> Finished"
  by (induction pre rule: stages.induct) (simp_all add: split_beta)

lemma run_to_exit:
  "list_all is_block pre \<Longrightarrow> list_all (\<lambda>st. \<not> raises st) pre \<Longrightarrow>
   run raises (pre @ Exit l # post) = (pre @ [Exit l], Exited l)"
  by (induction pre rule: stages.induct) simp_all

lemma stages_take: "set (stages (take k xs)) \<subseteq> set (stages xs)"
proof (induction xs arbitrary: k rule: stages.induct)
  case 1
  then show ?case by simp
next
  case (2 g a b rest)
  then show ?case by (cases k) auto
next
  case (3 l rest)
  then show ?case by (cases k) auto
qed

text \<open>
  Claim C10, as stated: only data loading, fault/normal splitting, one-hot label
  construction, RFQ averaging and the saving of the averaged figures are reachable. The run
  in which nothing raises starts other statements too before it ends at line 293: among
  them the instantiation of the scalers (lines 241-251), the concatenation of the
  normalization subset (lines 253-257) and the class definitions of the model (lines
  26-174).
\<close>

theorem run_script_only_five_counterexample:
  "Scaler_Instantiation \<in> set (stages (fst (run never_raises script)))
   \<and> Normalization_Subset \<in> set (stages (fst (run never_raises script)))
   \<and> Model_Definitions \<in> set (stages (fst (run never_raises script)))"
  by (simp add: script_def script_before_exit_def never_raises_def)

text \<open>
  Claim C10, amended. In every run of the script, whatever exceptions its surroundings cause, the
  statements started are the first statements of the file up to, at most, the
  \<^verbatim>\<open>exit()\<close> of line 293: imports and seeding, the class and function definitions, the
  constants, data loading, label construction, fault/normal splitting, one-hot labels,
  instantiation of the scalers, the normalization subset, RFQ averaging and the saving of
  the averaged figures. No scaler is fitted, the test sample is not transformed, no CVAE is
  constructed, no checkpoint is loaded, no reconstruction is evaluated or plotted; the run
  never reaches the end of the file nor the second \<^verbatim>\<open>exit()\<close>. When no statement
  before line 293 raises, the run executes all of them and ends at the \<^verbatim>\<open>exit()\<close> of
  line 293.
\<close>

theorem run_script_stops_at_exit:
  "(\<exists>k. fst (run raises script) = take k (script_before_exit @ [Exit 293]))
   \<and> set (stages (fst (run raises script)))
       \<subseteq> {Imports_And_Seed, Model_Definitions, Constants, Data_Loading, Label_Construction,
           Fault_Normal_Splitting, One_Hot_Labels, Scaler_Instantiation, Normalization_Subset,
           RFQ_Averaging, Averaged_Figure_Saving}
   \<and> Scaler_Fitting \<notin> set (stages (fst (run raises script)))
   \<and> Test_Sample_Transform \<notin> set (stages (fst (run raises script)))
   \<and> CVAE_Construction \<notin> set (stages (fst (run raises script)))
   \<and> Checkpoint_Load \<notin> set (stages (fst (run raises script)))
   \<and> Reconstruction_Evaluation \<notin> set (stages (fst (run raises script)))
   \<and> Reconstruction_Plots \<notin> set (stages (fst (run raises script)))
   \<and> snd (run raises script) \<noteq> Finished
   \<and> snd (run raises script) \<noteq> Exited 411
   \<and> (list_all (\<lambda>st. \<not> raises st) script_before_exit \<longrightarrow>
        run raises script = (script_before_exit @ [Exit 293], Exited 293))"
proof -
  obtain k where k: "fst (run raises script) = take k (script_before_exit @ [Exit 293])"
    unfolding script_def using run_started_prefix by blast
  have sub: "set (stages (fst (run raises script)))
     \<subseteq> set (stages (script_before_exit @ [Exit 293]))"
    unfolding k by (rule stages_take)
  have st: "set (stages (script_before_exit @ [Exit 293]))
     = {Imports_And_Seed, Model_Definitions, Constants, Data_Loading, Label_Construction,
         Fault_Normal_Splitting, One_Hot_Labels, Scaler_Instantiation, Normalization_Subset,
         RFQ_Averaging, Averaged_Figure_Saving}"
    by (simp add: script_before_exit_def)
  have nf: "snd (run raises script) \<noteq> Finished"
    unfolding script_def by (rule run_not_Finished)
  have ex: "run raises script = (script_before_exit @ [Exit 293], Exited 293)"
    if "list_all (\<lambda>st. \<not> raises st) script_before_exit"
    unfolding script_def using _ that by (rule run_to_exit) (simp add: script_before_exit_def)
  have ne: "snd (run raises script) \<noteq> Exited 411"
  proof
    assume e: "snd (run raises script) = Exited 411"
    have "snd (run raises script) = Exited 293 \<or> (\<exists>st. snd (run raises script) = Raised st)"
      by (simp add: script_def script_before_exit_def)
    with e show False by auto
  qed
  from k sub st nf ne ex show ?thesis by auto
qed

theorem run_script_stops_at_exit_witness:
  "list_all (\<lambda>st. \<not> never_raises st) script_before_exit
   \<and> run never_raises script = (script_before_exit @ [Exit 293], Exited 293)
   \<and> stages (fst (run never_raises script))
       = [Imports_And_Seed, Model_Definitions, Constants, Data_Loading, Label_Construction,
          Fault_Normal_Splitting, One_Hot_Labels, Scaler_Instantiation, Normalization_Subset,
          RFQ_Averaging, Averaged_Figure_Saving]"
proof -
  have n: "list_all (\<lambda>st. \<not> never_raises st) script_before_exit"
    by (simp add: never_raises_def list_all_iff)
  have imp: "list_all (\<lambda>st. \<not> never_raises st) script_before_exit \<longrightarrow>
        run never_raises script = (script_before_exit @ [Exit 293], Exited 293)"
    using run_script_stops_at_exit [of never_raises] by blast
  from imp n have r: "run never_raises script = (script_before_exit @ [Exit 293], Exited 293)"
    by (rule mp)
  from n r show ?thesis by (simp add: script_before_exit_def)
qed

section \<open>The scalers in the script\<close>

text \<open>The state that lines 412 to 438 leave.\<close>

lemma refit_and_transform_eq:
  assumes "length (Xnormal_concat s) = 14" and "\<forall>c \<in> set (Xnormal_concat s). c \<noteq> []"
    and "length (data_test s) = 14" and "\<forall>c \<in> set (data_test s). c \<noteq> []"
  shows "refit_and_transform s = Some
     \<lparr>scalers =
        \<lparr>scaler_IGBT = refit (scaler_IGBT (scalers s)) 6 (Xnormal_concat s ! 5),
         scaler_FLUX = refit (scaler_FLUX (scalers s)) 3 (Xnormal_concat s ! 8),
         scaler_CAP = refit (scaler_CAP (scalers s)) 2 (Xnormal_concat s ! 10),
         scaler_MOD = refit (scaler_MOD (scalers s)) 3 (Xnormal_concat s ! 13)\<rparr>,
      Xnormal_concat = map minmax_col (Xnormal_concat s),
      data_test =
        map (apply_params (minmax_params (Xnormal_concat s ! 5))) (take 6 (data_test s))
        @ map (apply_params (minmax_params (Xnormal_concat s ! 8)))
            (take 3 (drop 6 (data_test s)))
        @ map (apply_params (minmax_params (Xnormal_concat s ! 10)))
            (take 2 (drop 9 (data_test s)))
        @ map (apply_params (minmax_params (Xnormal_concat s ! 13)))
            (drop 11 (data_test s))\<rparr>"
  using assms(3,4)
  by (simp add: refit_and_transform_def minmax_loop_eq [OF assms(1,2)] transform_loop_eq
      refit_def)

lemma minmax_params_0_10: "minmax_params [0, 10] = (1 / 10, 0)"
  by (simp add: minmax_params_def machine_eps_def)

lemma minmax_params_0_20: "minmax_params [0, 20] = (1 / 20, 0)"
  by (simp add: minmax_params_def machine_eps_def)

text \<open>
  A loop that refits on a channel which an earlier loop has already scaled to the range
  from 0 to 1 leaves the parameters (1, 0), with which \<^verbatim>\<open>transform\<close> changes nothing.
\<close>

lemma minmax_params_scaled: "minmax_params (minmax_col [0, 10]) = (1, 0)"
  by (simp add: minmax_col_def apply_params_def minmax_params_0_10)
     (simp add: minmax_params_def machine_eps_def)

text \<open>
  Claim C7 on the example, and in the runs of the script. The claim says that each scaler
  is fitted exactly once on the normalization subset and that the test sample is
  transformed with those parameters. In no run of the script is a scaler fitted or the test
  sample transformed, whatever raises: the statements that would do it stand after the
  \<^verbatim>\<open>exit()\<close> of line 293. And those statements, as written, do not fit once: lines 412
  to 438 fit \<^verbatim>\<open>scaler_IGBT\<close> 6 times, once for each channel of the group, each fit
  replacing the one before, so that it is left with the parameters of channel 5 alone,
  (1/10, 0) on the example. Channel 0 of the training array, whose own parameters are
  (1/20, 0), is scaled with them to the values 0 and 1; channel 0 of the test sample is
  scaled with the parameters of channel 5, its value 5 becoming 1/2 and not 1/4.
\<close>

theorem scalers_refit_per_channel:
  "Scaler_Fitting \<notin> set (stages (fst (run raises script)))
   \<and> Test_Sample_Transform \<notin> set (stages (fst (run raises script)))
   \<and> map_option (n_fits \<circ> scaler_IGBT \<circ> scalers) (refit_and_transform prep_example) = Some 6
   \<and> map_option (n_fits \<circ> scaler_FLUX \<circ> scalers) (refit_and_transform prep_example) = Some 3
   \<and> map_option (n_fits \<circ> scaler_CAP \<circ> scalers) (refit_and_transform prep_example) = Some 2
   \<and> map_option (n_fits \<circ> scaler_MOD \<circ> scalers) (refit_and_transform prep_example) = Some 3
   \<and> map_option (fitted \<circ> scaler_IGBT \<circ> scalers) (refit_and_transform prep_example)
       = Some (Some (1 / 10, 0))
   \<and> minmax_params (Xnormal_concat prep_example ! 0) = (1 / 20, 0)
   \<and> map_option (hd \<circ> Xnormal_concat) (refit_and_transform prep_example) = Some [0, 1]
   \<and> map_option (hd \<circ> data_test) (refit_and_transform prep_example) = Some [1 / 2]"
proof -
  obtain k where k: "fst (run raises script) = take k (script_before_exit @ [Exit 293])"
    unfolding script_def using run_started_prefix by blast
  have "set (stages (fst (run raises script)))
     \<subseteq> set (stages (script_before_exit @ [Exit 293]))"
    unfolding k by (rule stages_take)
  then have unreached: "Scaler_Fitting \<notin> set (stages (fst (run raises script)))"
    "Test_Sample_Transform \<notin> set (stages (fst (run raises script)))"
    by (auto simp add: script_before_exit_def)
  have wf: "length (Xnormal_concat prep_example) = 14"
    "\<forall>c \<in> set (Xnormal_concat prep_example). c \<noteq> []"
    "length (data_test prep_example) = 14"
    "\<forall>c \<in> set (data_test prep_example). c \<noteq> []"
    by (simp_all add: prep_example_def)
  have cols: "Xnormal_concat prep_example ! 0 = [0, 20]" "Xnormal_concat prep_example ! 5 = [0, 10]"
    by (simp_all add: prep_example_def)
  have col0: "minmax_col [0, 20] = [0, 1]"
    by (simp add: minmax_col_def apply_params_def minmax_params_0_20)
  have run: "map_option (n_fits \<circ> scaler_IGBT \<circ> scalers) (refit_and_transform prep_example) = Some 6"
    "map_option (n_fits \<circ> scaler_FLUX \<circ> scalers) (refit_and_transform prep_example) = Some 3"
    "map_option (n_fits \<circ> scaler_CAP \<circ> scalers) (refit_and_transform prep_example) = Some 2"
    "map_option (n_fits \<circ> scaler_MOD \<circ> scalers) (refit_and_transform prep_example) = Some 3"
    "map_option (fitted \<circ> scaler_IGBT \<circ> scalers) (refit_and_transform prep_example)
       = Some (Some (1 / 10, 0))"
    unfolding refit_and_transform_eq [OF wf]
    by (simp_all add: refit_def cols minmax_params_0_10)
       (simp_all add: prep_example_def MinMaxScaler_init_def)
  have train: "map_option (hd \<circ> Xnormal_concat) (refit_and_transform prep_example) = Some [0, 1]"
    unfolding refit_and_transform_eq [OF wf]
    by (simp add: prep_example_def col0)
  have test: "map_option (hd \<circ> data_test) (refit_and_transform prep_example) = Some [1 / 2]"
    unfolding refit_and_transform_eq [OF wf]
    by (simp add: cols minmax_params_0_10) (simp add: prep_example_def apply_params_def)
  from unreached run cols minmax_params_0_20 train test show ?thesis by simp
qed

end
